theory Spec2Isabelle
  imports Main "HOL-Library.Word"
begin

unbundle bit_operations_syntax

section \<open>Basic types and constants of applespi.c\<close>

type_synonym u8 = "8 word"
type_synonym u16 = "16 word"
type_synonym u32 = "32 word"

text \<open>A signed 16-bit value is a 16-bit word read with \<open>sint\<close>.\<close>

type_synonym s16 = "16 word"

definition APPLESPI_PACKET_SIZE :: nat where "APPLESPI_PACKET_SIZE = 256"
definition PACKET_KEYBOARD :: u16 where "PACKET_KEYBOARD = 288"
definition PACKET_TOUCHPAD :: u16 where "PACKET_TOUCHPAD = 544"
definition PACKET_NOTHING :: u16 where "PACKET_NOTHING = 53312"
definition MAX_ROLLOVER :: nat where "MAX_ROLLOVER = 6"
definition MAX_FINGERS :: nat where "MAX_FINGERS = 6"
definition MAX_FINGER_ORIENTATION :: int where "MAX_FINGER_ORIENTATION = 16384"
definition APPLE_FLAG_FKEY :: u8 where "APPLE_FLAG_FKEY = 1"

text \<open>The module parameters \<^verbatim>\<open>fnmode\<close> and \<^verbatim>\<open>iso_layout\<close> (both \<^verbatim>\<open>unsigned int\<close>).\<close>

record module_params =
  fnmode :: u32
  iso_layout :: u32

subsection \<open>Key codes\<close>

text \<open>The key codes are those of the kernel header \<^verbatim>\<open>input-event-codes.h\<close>; a key code is an
  \<^verbatim>\<open>unsigned int\<close> in the driver and a natural number here.\<close>

named_theorems keycodes

definition KEY_ESC :: nat where [keycodes]: "KEY_ESC = 1"
definition KEY_1 :: nat where [keycodes]: "KEY_1 = 2"
definition KEY_2 :: nat where [keycodes]: "KEY_2 = 3"
definition KEY_3 :: nat where [keycodes]: "KEY_3 = 4"
definition KEY_4 :: nat where [keycodes]: "KEY_4 = 5"
definition KEY_5 :: nat where [keycodes]: "KEY_5 = 6"
definition KEY_6 :: nat where [keycodes]: "KEY_6 = 7"
definition KEY_7 :: nat where [keycodes]: "KEY_7 = 8"
definition KEY_8 :: nat where [keycodes]: "KEY_8 = 9"
definition KEY_9 :: nat where [keycodes]: "KEY_9 = 10"
definition KEY_0 :: nat where [keycodes]: "KEY_0 = 11"
definition KEY_MINUS :: nat where [keycodes]: "KEY_MINUS = 12"
definition KEY_EQUAL :: nat where [keycodes]: "KEY_EQUAL = 13"
definition KEY_BACKSPACE :: nat where [keycodes]: "KEY_BACKSPACE = 14"
definition KEY_TAB :: nat where [keycodes]: "KEY_TAB = 15"
definition KEY_Q :: nat where [keycodes]: "KEY_Q = 16"
definition KEY_W :: nat where [keycodes]: "KEY_W = 17"
definition KEY_E :: nat where [keycodes]: "KEY_E = 18"
definition KEY_R :: nat where [keycodes]: "KEY_R = 19"
definition KEY_T :: nat where [keycodes]: "KEY_T = 20"
definition KEY_Y :: nat where [keycodes]: "KEY_Y = 21"
definition KEY_U :: nat where [keycodes]: "KEY_U = 22"
definition KEY_I :: nat where [keycodes]: "KEY_I = 23"
definition KEY_O :: nat where [keycodes]: "KEY_O = 24"
definition KEY_P :: nat where [keycodes]: "KEY_P = 25"
definition KEY_LEFTBRACE :: nat where [keycodes]: "KEY_LEFTBRACE = 26"
definition KEY_RIGHTBRACE :: nat where [keycodes]: "KEY_RIGHTBRACE = 27"
definition KEY_ENTER :: nat where [keycodes]: "KEY_ENTER = 28"
definition KEY_LEFTCTRL :: nat where [keycodes]: "KEY_LEFTCTRL = 29"
definition KEY_A :: nat where [keycodes]: "KEY_A = 30"
definition KEY_S :: nat where [keycodes]: "KEY_S = 31"
definition KEY_D :: nat where [keycodes]: "KEY_D = 32"
definition KEY_F :: nat where [keycodes]: "KEY_F = 33"
definition KEY_G :: nat where [keycodes]: "KEY_G = 34"
definition KEY_H :: nat where [keycodes]: "KEY_H = 35"
definition KEY_J :: nat where [keycodes]: "KEY_J = 36"
definition KEY_K :: nat where [keycodes]: "KEY_K = 37"
definition KEY_L :: nat where [keycodes]: "KEY_L = 38"
definition KEY_SEMICOLON :: nat where [keycodes]: "KEY_SEMICOLON = 39"
definition KEY_APOSTROPHE :: nat where [keycodes]: "KEY_APOSTROPHE = 40"
definition KEY_GRAVE :: nat where [keycodes]: "KEY_GRAVE = 41"
definition KEY_LEFTSHIFT :: nat where [keycodes]: "KEY_LEFTSHIFT = 42"
definition KEY_BACKSLASH :: nat where [keycodes]: "KEY_BACKSLASH = 43"
definition KEY_Z :: nat where [keycodes]: "KEY_Z = 44"
definition KEY_X :: nat where [keycodes]: "KEY_X = 45"
definition KEY_C :: nat where [keycodes]: "KEY_C = 46"
definition KEY_V :: nat where [keycodes]: "KEY_V = 47"
definition KEY_B :: nat where [keycodes]: "KEY_B = 48"
definition KEY_N :: nat where [keycodes]: "KEY_N = 49"
definition KEY_M :: nat where [keycodes]: "KEY_M = 50"
definition KEY_COMMA :: nat where [keycodes]: "KEY_COMMA = 51"
definition KEY_DOT :: nat where [keycodes]: "KEY_DOT = 52"
definition KEY_SLASH :: nat where [keycodes]: "KEY_SLASH = 53"
definition KEY_RIGHTSHIFT :: nat where [keycodes]: "KEY_RIGHTSHIFT = 54"
definition KEY_LEFTALT :: nat where [keycodes]: "KEY_LEFTALT = 56"
definition KEY_SPACE :: nat where [keycodes]: "KEY_SPACE = 57"
definition KEY_CAPSLOCK :: nat where [keycodes]: "KEY_CAPSLOCK = 58"
definition KEY_F1 :: nat where [keycodes]: "KEY_F1 = 59"
definition KEY_F2 :: nat where [keycodes]: "KEY_F2 = 60"
definition KEY_F3 :: nat where [keycodes]: "KEY_F3 = 61"
definition KEY_F4 :: nat where [keycodes]: "KEY_F4 = 62"
definition KEY_F5 :: nat where [keycodes]: "KEY_F5 = 63"
definition KEY_F6 :: nat where [keycodes]: "KEY_F6 = 64"
definition KEY_F7 :: nat where [keycodes]: "KEY_F7 = 65"
definition KEY_F8 :: nat where [keycodes]: "KEY_F8 = 66"
definition KEY_F9 :: nat where [keycodes]: "KEY_F9 = 67"
definition KEY_F10 :: nat where [keycodes]: "KEY_F10 = 68"
definition KEY_102ND :: nat where [keycodes]: "KEY_102ND = 86"
definition KEY_F11 :: nat where [keycodes]: "KEY_F11 = 87"
definition KEY_F12 :: nat where [keycodes]: "KEY_F12 = 88"
definition KEY_RIGHTALT :: nat where [keycodes]: "KEY_RIGHTALT = 100"
definition KEY_HOME :: nat where [keycodes]: "KEY_HOME = 102"
definition KEY_UP :: nat where [keycodes]: "KEY_UP = 103"
definition KEY_PAGEUP :: nat where [keycodes]: "KEY_PAGEUP = 104"
definition KEY_LEFT :: nat where [keycodes]: "KEY_LEFT = 105"
definition KEY_RIGHT :: nat where [keycodes]: "KEY_RIGHT = 106"
definition KEY_END :: nat where [keycodes]: "KEY_END = 107"
definition KEY_DOWN :: nat where [keycodes]: "KEY_DOWN = 108"
definition KEY_PAGEDOWN :: nat where [keycodes]: "KEY_PAGEDOWN = 109"
definition KEY_INSERT :: nat where [keycodes]: "KEY_INSERT = 110"
definition KEY_DELETE :: nat where [keycodes]: "KEY_DELETE = 111"
definition KEY_MUTE :: nat where [keycodes]: "KEY_MUTE = 113"
definition KEY_VOLUMEDOWN :: nat where [keycodes]: "KEY_VOLUMEDOWN = 114"
definition KEY_VOLUMEUP :: nat where [keycodes]: "KEY_VOLUMEUP = 115"
definition KEY_SCALE :: nat where [keycodes]: "KEY_SCALE = 120"
definition KEY_LEFTMETA :: nat where [keycodes]: "KEY_LEFTMETA = 125"
definition KEY_RIGHTMETA :: nat where [keycodes]: "KEY_RIGHTMETA = 126"
definition KEY_NEXTSONG :: nat where [keycodes]: "KEY_NEXTSONG = 163"
definition KEY_PLAYPAUSE :: nat where [keycodes]: "KEY_PLAYPAUSE = 164"
definition KEY_PREVIOUSSONG :: nat where [keycodes]: "KEY_PREVIOUSSONG = 165"
definition KEY_DASHBOARD :: nat where [keycodes]: "KEY_DASHBOARD = 204"
definition KEY_BRIGHTNESSDOWN :: nat where [keycodes]: "KEY_BRIGHTNESSDOWN = 224"
definition KEY_BRIGHTNESSUP :: nat where [keycodes]: "KEY_BRIGHTNESSUP = 225"
definition KEY_KBDILLUMDOWN :: nat where [keycodes]: "KEY_KBDILLUMDOWN = 229"
definition KEY_KBDILLUMUP :: nat where [keycodes]: "KEY_KBDILLUMUP = 230"
definition BTN_LEFT :: nat where [keycodes]: "BTN_LEFT = 272"
definition KEY_FN :: nat where [keycodes]: "KEY_FN = 464"

subsection \<open>The scancode and translation tables\<close>

definition applespi_scancodes :: "nat list" where
  "applespi_scancodes =
    [0, 0, 0, 0,
     KEY_A, KEY_B, KEY_C, KEY_D, KEY_E, KEY_F, KEY_G, KEY_H, KEY_I, KEY_J,
     KEY_K, KEY_L, KEY_M, KEY_N, KEY_O, KEY_P, KEY_Q, KEY_R, KEY_S, KEY_T,
     KEY_U, KEY_V, KEY_W, KEY_X, KEY_Y, KEY_Z,
     KEY_1, KEY_2, KEY_3, KEY_4, KEY_5, KEY_6, KEY_7, KEY_8, KEY_9, KEY_0,
     KEY_ENTER, KEY_ESC, KEY_BACKSPACE, KEY_TAB, KEY_SPACE, KEY_MINUS,
     KEY_EQUAL, KEY_LEFTBRACE, KEY_RIGHTBRACE, KEY_BACKSLASH, 0,
     KEY_SEMICOLON, KEY_APOSTROPHE, KEY_GRAVE, KEY_COMMA, KEY_DOT, KEY_SLASH,
     KEY_CAPSLOCK,
     KEY_F1, KEY_F2, KEY_F3, KEY_F4, KEY_F5, KEY_F6, KEY_F7, KEY_F8, KEY_F9,
     KEY_F10, KEY_F11, KEY_F12, 0, 0, 0, 0, 0, 0, 0, 0, 0,
     KEY_RIGHT, KEY_LEFT, KEY_DOWN, KEY_UP,
     0, 0, 0, 0, 0, 0, 0, 0, 0, 0, 0, 0, 0, 0, 0, 0, 0, KEY_102ND]"

definition applespi_controlcodes :: "nat list" where
  "applespi_controlcodes =
    [KEY_LEFTCTRL, KEY_LEFTSHIFT, KEY_LEFTALT, KEY_LEFTMETA, 0,
     KEY_RIGHTSHIFT, KEY_RIGHTALT, KEY_RIGHTMETA]"

text \<open>\<^verbatim>\<open>struct applespi_key_translation\<close>; an entry written without flags has flags 0, and the
  entry \<^verbatim>\<open>{ }\<close> that ends a table has \<^verbatim>\<open>from\<close> 0.\<close>

record applespi_key_translation =
  tr_from :: nat
  tr_to :: nat
  tr_flags :: u8

definition entry :: "nat \<Rightarrow> nat \<Rightarrow> u8 \<Rightarrow> applespi_key_translation" where
  "entry f t fl = \<lparr>tr_from = f, tr_to = t, tr_flags = fl\<rparr>"

definition applespi_fn_codes :: "applespi_key_translation list" where
  "applespi_fn_codes =
    [entry KEY_BACKSPACE KEY_DELETE 0,
     entry KEY_ENTER KEY_INSERT 0,
     entry KEY_F1 KEY_BRIGHTNESSDOWN APPLE_FLAG_FKEY,
     entry KEY_F2 KEY_BRIGHTNESSUP APPLE_FLAG_FKEY,
     entry KEY_F3 KEY_SCALE APPLE_FLAG_FKEY,
     entry KEY_F4 KEY_DASHBOARD APPLE_FLAG_FKEY,
     entry KEY_F5 KEY_KBDILLUMDOWN APPLE_FLAG_FKEY,
     entry KEY_F6 KEY_KBDILLUMUP APPLE_FLAG_FKEY,
     entry KEY_F7 KEY_PREVIOUSSONG APPLE_FLAG_FKEY,
     entry KEY_F8 KEY_PLAYPAUSE APPLE_FLAG_FKEY,
     entry KEY_F9 KEY_NEXTSONG APPLE_FLAG_FKEY,
     entry KEY_F10 KEY_MUTE APPLE_FLAG_FKEY,
     entry KEY_F11 KEY_VOLUMEDOWN APPLE_FLAG_FKEY,
     entry KEY_F12 KEY_VOLUMEUP APPLE_FLAG_FKEY,
     entry KEY_RIGHT KEY_END 0,
     entry KEY_LEFT KEY_HOME 0,
     entry KEY_DOWN KEY_PAGEDOWN 0,
     entry KEY_UP KEY_PAGEUP 0,
     entry 0 0 0]"

definition apple_iso_keyboard :: "applespi_key_translation list" where
  "apple_iso_keyboard =
    [entry KEY_GRAVE KEY_102ND 0,
     entry KEY_102ND KEY_GRAVE 0,
     entry 0 0 0]"

section \<open>Key translation\<close>

text \<open>A read of the scancode table at an index beyond its last entry is a fault of the model:
  the C code reads whatever follows the array.\<close>

datatype fault = TableOverrun nat

text \<open>\<^verbatim>\<open>applespi_find_translation\<close>: the scan stops at the first entry whose \<^verbatim>\<open>from\<close> is 0.\<close>

fun applespi_find_translation ::
  "applespi_key_translation list \<Rightarrow> nat \<Rightarrow> applespi_key_translation option" where
  "applespi_find_translation [] key = None"
| "applespi_find_translation (tr # table) key =
     (if tr_from tr = 0 then None
      else if tr_from tr = key then Some tr
      else applespi_find_translation table key)"

text \<open>\<^verbatim>\<open>applespi_code_to_key\<close>: \<^verbatim>\<open>code\<close> is a \<^verbatim>\<open>u8\<close>, \<^verbatim>\<open>fn_pressed\<close> an \<^verbatim>\<open>int\<close> that is tested
  for being non-zero.\<close>

definition applespi_code_to_key :: "module_params \<Rightarrow> u8 \<Rightarrow> int \<Rightarrow> fault + nat" where
  "applespi_code_to_key p code fn_pressed =
    (if unat code < length applespi_scancodes then
       let key = applespi_scancodes ! unat code;
           key = (if fnmode p \<noteq> 0 then
                    (case applespi_find_translation applespi_fn_codes key of
                       None \<Rightarrow> key
                     | Some tr \<Rightarrow>
                         let do_translate =
                               (if tr_flags tr AND APPLE_FLAG_FKEY \<noteq> 0
                                then (fnmode p = 2 \<and> fn_pressed \<noteq> 0) \<or>
                                     (fnmode p = 1 \<and> \<not> fn_pressed \<noteq> 0)
                                else fn_pressed \<noteq> 0)
                         in if do_translate then tr_to tr else key)
                  else key);
           key = (if iso_layout p \<noteq> 0 then
                    (case applespi_find_translation apple_iso_keyboard key of
                       None \<Rightarrow> key
                     | Some tr \<Rightarrow> tr_to tr)
                  else key)
       in Inr key
     else Inl (TableOverrun (unat code)))"


section \<open>Packets\<close>

text \<open>A received packet is the 256-byte \<^verbatim>\<open>rx_buffer\<close>. \<^verbatim>\<open>applespi_got_data\<close> copies it into a
  \<^verbatim>\<open>struct keyboard_protocol\<close> and, for a touchpad packet, reads the same bytes as a
  \<^verbatim>\<open>struct touchpad_protocol\<close>; the fields lie at the byte offsets the struct declarations
  give them, and a 16-bit field is read little-endian.\<close>

definition le16_at :: "u8 list \<Rightarrow> nat \<Rightarrow> u16" where
  "le16_at b off = word_cat (b ! (off + 1)) (b ! off)"

record keyboard_protocol =
  packet_type :: u16
  counter :: u8
  modifiers :: u8
  keys_pressed :: "u8 list"
  fn_pressed :: u8

definition keyboard_protocol_of :: "u8 list \<Rightarrow> keyboard_protocol" where
  "keyboard_protocol_of b =
    \<lparr>packet_type = le16_at b 0,
     counter = b ! 11,
     modifiers = b ! 17,
     keys_pressed = map (\<lambda>j. b ! (19 + j)) [0..<6],
     fn_pressed = b ! 25\<rparr>"

record tp_finger =
  origin :: u16
  abs_x :: u16
  abs_y :: u16
  rel_x :: u16
  rel_y :: u16
  tool_major :: u16
  tool_minor :: u16
  orientation :: u16
  touch_major :: u16
  touch_minor :: u16
  pressure :: u16
  multi :: u16

definition tp_finger_of :: "u8 list \<Rightarrow> nat \<Rightarrow> tp_finger" where
  "tp_finger_of b off =
    \<lparr>origin = le16_at b off,
     abs_x = le16_at b (off + 2),
     abs_y = le16_at b (off + 4),
     rel_x = le16_at b (off + 6),
     rel_y = le16_at b (off + 8),
     tool_major = le16_at b (off + 10),
     tool_minor = le16_at b (off + 12),
     orientation = le16_at b (off + 14),
     touch_major = le16_at b (off + 16),
     touch_minor = le16_at b (off + 18),
     pressure = le16_at b (off + 24),
     multi = le16_at b (off + 26)\<rparr>"

record touchpad_protocol =
  number_of_fingers :: u8
  clicked :: u8
  fingers :: "tp_finger list"

definition touchpad_protocol_of :: "u8 list \<Rightarrow> touchpad_protocol" where
  "touchpad_protocol_of b =
    \<lparr>number_of_fingers = b ! 6,
     clicked = b ! 17,
     fingers = map (\<lambda>i. tp_finger_of b (64 + 30 * i)) [0..<MAX_FINGERS]\<rparr>"

section \<open>Driver state and the calls into the input core\<close>

record applespi_tp_info =
  x_min :: int
  x_max :: int
  y_min :: int
  y_max :: int

definition applespi_macbookpro131_info :: applespi_tp_info where
  "applespi_macbookpro131_info = \<lparr>x_min = -6243, x_max = 6749, y_min = -170, y_max = 7685\<rparr>"

definition applespi_macbookpro133_info :: applespi_tp_info where
  "applespi_macbookpro133_info = \<lparr>x_min = -7456, x_max = 7976, y_min = -163, y_max = 9283\<rparr>"

definition applespi_default_info :: applespi_tp_info where
  "applespi_default_info = \<lparr>x_min = -4828, x_max = 5345, y_min = -203, y_max = 6803\<rparr>"

text \<open>\<^verbatim>\<open>struct input_mt_pos\<close> is declared by the input core as \<^verbatim>\<open>{ s16 x, y; }\<close>. An \<^verbatim>\<open>int\<close>
  assigned to a field keeps its low 16 bits (\<open>word_of_int\<close>), and a field is read back as a
  two's complement value (\<open>sint\<close>).\<close>

record input_mt_pos =
  mt_x :: s16
  mt_y :: s16

record applespi_data =
  tx_buffer :: "u8 list"
  rx_buffer :: "u8 list"
  tp_info :: applespi_tp_info
  last_keys_pressed :: "u8 list"
  last_keys_fn_pressed :: "u8 list"
  last_fn_pressed :: u8
  pos :: "input_mt_pos list"
  slots :: "int list"
  want_cl_led_on :: bool
  have_cl_led_on :: bool
  led_msg_cntr :: u32
  led_msg_queued :: bool

text \<open>The state \<^verbatim>\<open>applespi_probe\<close> leaves: \<^verbatim>\<open>devm_kzalloc\<close> zeroes the structure, the two
  buffers come from \<^verbatim>\<open>devm_kmalloc\<close> with whatever they contain.\<close>

definition applespi_probed :: "applespi_tp_info \<Rightarrow> u8 list \<Rightarrow> u8 list \<Rightarrow> applespi_data" where
  "applespi_probed info tx rx =
    \<lparr>tx_buffer = tx, rx_buffer = rx, tp_info = info,
     last_keys_pressed = replicate MAX_ROLLOVER 0,
     last_keys_fn_pressed = replicate MAX_ROLLOVER 0,
     last_fn_pressed = 0,
     pos = replicate MAX_FINGERS \<lparr>mt_x = 0, mt_y = 0\<rparr>,
     slots = replicate MAX_FINGERS 0,
     want_cl_led_on = False, have_cl_led_on = False,
     led_msg_cntr = 0, led_msg_queued = False\<rparr>"

text \<open>Every call the driver makes into the input core is one entry of a trace.\<close>

datatype input_device = Keyboard | Touchpad

datatype abs_axis =
  ABS_MT_TOUCH_MAJOR | ABS_MT_TOUCH_MINOR | ABS_MT_WIDTH_MAJOR | ABS_MT_WIDTH_MINOR
| ABS_MT_ORIENTATION | ABS_MT_POSITION_X | ABS_MT_POSITION_Y

datatype input_call =
  Report_key input_device nat int
| Sync input_device
| Mt_slot int
| Mt_report_slot_state bool
| Report_abs abs_axis int
| Mt_sync_frame

section \<open>Keyboard packets\<close>

text \<open>The inner loop over \<^verbatim>\<open>j\<close> of the release scan.\<close>

definition still_pressed :: "u8 \<Rightarrow> u8 list \<Rightarrow> bool" where
  "still_pressed k keys = (\<exists>j \<in> set [0..<6]. k = keys ! j)"

text \<open>The release scan, over the slots \<^verbatim>\<open>i\<close> still to visit.\<close>

fun release_keys ::
  "module_params \<Rightarrow> u8 list \<Rightarrow> nat list \<Rightarrow> input_call list \<times> applespi_data \<Rightarrow>
   fault + (input_call list \<times> applespi_data)" where
  "release_keys p keys [] acc = Inr acc"
| "release_keys p keys (i # rest) (evs, a) =
     (if \<not> still_pressed (last_keys_pressed a ! i) keys then
        (case applespi_code_to_key p (last_keys_pressed a ! i)
                (uint (last_keys_fn_pressed a ! i)) of
           Inl e \<Rightarrow> Inl e
         | Inr key \<Rightarrow>
             release_keys p keys rest
               (evs @ [Report_key Keyboard key 0],
                a\<lparr>last_keys_fn_pressed := (last_keys_fn_pressed a)[i := 0]\<rparr>))
      else release_keys p keys rest (evs, a))"

text \<open>The press scan.\<close>

fun press_keys ::
  "module_params \<Rightarrow> keyboard_protocol \<Rightarrow> nat list \<Rightarrow> input_call list \<times> applespi_data \<Rightarrow>
   fault + (input_call list \<times> applespi_data)" where
  "press_keys p kp [] acc = Inr acc"
| "press_keys p kp (i # rest) (evs, a) =
     (if unat (keys_pressed kp ! i) < length applespi_scancodes \<and> keys_pressed kp ! i > 0 then
        (case applespi_code_to_key p (keys_pressed kp ! i) (uint (fn_pressed kp)) of
           Inl e \<Rightarrow> Inl e
         | Inr key \<Rightarrow>
             press_keys p kp rest
               (evs @ [Report_key Keyboard key 1],
                a\<lparr>last_keys_fn_pressed := (last_keys_fn_pressed a)[i := fn_pressed kp]\<rparr>))
      else press_keys p kp rest (evs, a))"

definition control_keys :: "keyboard_protocol \<Rightarrow> input_call list" where
  "control_keys kp =
    map (\<lambda>i. if bit (modifiers kp) i
              then Report_key Keyboard (applespi_controlcodes ! i) 1
              else Report_key Keyboard (applespi_controlcodes ! i) 0) [0..<8]"

definition function_key :: "keyboard_protocol \<Rightarrow> applespi_data \<Rightarrow> input_call list" where
  "function_key kp a =
    (if fn_pressed kp \<noteq> 0 \<and> \<not> last_fn_pressed a \<noteq> 0 then [Report_key Keyboard KEY_FN 1]
     else if \<not> fn_pressed kp \<noteq> 0 \<and> last_fn_pressed a \<noteq> 0 then [Report_key Keyboard KEY_FN 0]
     else [])"

section \<open>Touchpad packets\<close>

definition raw2int :: "u16 \<Rightarrow> int" where
  "raw2int x = sint x"

definition report_finger_data :: "int \<Rightarrow> input_mt_pos \<Rightarrow> tp_finger \<Rightarrow> input_call list" where
  "report_finger_data slot ps f =
    [Mt_slot slot,
     Mt_report_slot_state True,
     Report_abs ABS_MT_TOUCH_MAJOR (push_bit 1 (raw2int (touch_major f))),
     Report_abs ABS_MT_TOUCH_MINOR (push_bit 1 (raw2int (touch_minor f))),
     Report_abs ABS_MT_WIDTH_MAJOR (push_bit 1 (raw2int (tool_major f))),
     Report_abs ABS_MT_WIDTH_MINOR (push_bit 1 (raw2int (tool_minor f))),
     Report_abs ABS_MT_ORIENTATION (MAX_FINGER_ORIENTATION - raw2int (orientation f)),
     Report_abs ABS_MT_POSITION_X (sint (mt_x ps)),
     Report_abs ABS_MT_POSITION_Y (sint (mt_y ps))]"

text \<open>The first loop of \<^verbatim>\<open>report_tp_state\<close>, over the finger samples still to visit; \<^verbatim>\<open>n\<close> counts
  the positions stored so far.\<close>

fun collect_positions ::
  "applespi_tp_info \<Rightarrow> tp_finger list \<Rightarrow> nat \<Rightarrow> input_mt_pos list \<Rightarrow> nat \<times> input_mt_pos list" where
  "collect_positions info [] n ps = (n, ps)"
| "collect_positions info (f # fs) n ps =
     (if raw2int (touch_major f) = 0 then collect_positions info fs n ps
      else collect_positions info fs (Suc n)
             (ps[n := \<lparr>mt_x = word_of_int (raw2int (abs_x f)),
                       mt_y = word_of_int (y_min info + y_max info - raw2int (abs_y f))\<rparr>]))"

text \<open>\<^verbatim>\<open>input_mt_assign_slots\<close> belongs to the input core: from the \<^verbatim>\<open>n\<close> positions it fills
  \<^verbatim>\<open>slots[0..n-1]\<close>. It is a parameter \<open>assign\<close>, which gives the slot written at each index.\<close>

type_synonym mt_assign = "input_mt_pos list \<Rightarrow> nat \<Rightarrow> int"

definition report_tp_state ::
  "mt_assign \<Rightarrow> applespi_data \<Rightarrow> touchpad_protocol \<Rightarrow> input_call list \<times> applespi_data" where
  "report_tp_state assign a t =
    (let (n, ps) = collect_positions (tp_info a) (fingers t) 0 (pos a);
         a = a\<lparr>pos := ps\<rparr>;
         a = a\<lparr>slots := map (\<lambda>i. if i < n then assign (take n (pos a)) i else slots a ! i)
                            [0..<length (slots a)]\<rparr>;
         evs = concat (map (\<lambda>i. report_finger_data (slots a ! i) (pos a ! i) (fingers t ! i))
                         [0..<n])
     in (evs @ [Mt_sync_frame, Report_key Touchpad BTN_LEFT (uint (clicked t)), Sync Touchpad], a))"

section \<open>Packet dispatch\<close>

definition applespi_got_data ::
  "module_params \<Rightarrow> mt_assign \<Rightarrow> applespi_data \<Rightarrow> fault + (input_call list \<times> applespi_data)" where
  "applespi_got_data p assign a =
    (let kp = keyboard_protocol_of (rx_buffer a) in
     if packet_type kp = PACKET_NOTHING then Inr ([], a)
     else if packet_type kp = PACKET_KEYBOARD then
       (case release_keys p (keys_pressed kp) [0..<6] ([], a) of
          Inl e \<Rightarrow> Inl e
        | Inr released \<Rightarrow>
            (case press_keys p kp [0..<6] released of
               Inl e \<Rightarrow> Inl e
             | Inr (evs, a) \<Rightarrow>
                 let evs = evs @ control_keys kp @ function_key kp a;
                     a = a\<lparr>last_fn_pressed := fn_pressed kp\<rparr>;
                     evs = evs @ [Sync Keyboard];
                     a = a\<lparr>last_keys_pressed := keys_pressed kp\<rparr>
                 in Inr (evs, a)))
     else if packet_type kp = PACKET_TOUCHPAD then
       Inr (report_tp_state assign a (touchpad_protocol_of (rx_buffer a)))
     else Inr ([], a))"

text \<open>A packet arrives: the transfer fills \<^verbatim>\<open>rx_buffer\<close>, then \<^verbatim>\<open>applespi_got_data\<close> runs.\<close>

definition receive ::
  "module_params \<Rightarrow> mt_assign \<Rightarrow> applespi_data \<Rightarrow> u8 list \<Rightarrow>
   fault + (input_call list \<times> applespi_data)" where
  "receive p assign a pkt = applespi_got_data p assign (a\<lparr>rx_buffer := pkt\<rparr>)"


section \<open>Touchpad calibration\<close>

text \<open>\<^verbatim>\<open>applespi_probe\<close> takes the calibration from \<^verbatim>\<open>dmi_first_match\<close> over
  \<^verbatim>\<open>applespi_touchpad_infos\<close>. \<^verbatim>\<open>dmi_first_match\<close> is the kernel's: it returns the first entry
  all of whose \<^verbatim>\<open>DMI_MATCH\<close> strings occur in the named field of the machine's DMI data, and
  \<^verbatim>\<open>NULL\<close> when no entry does.\<close>

datatype dmi_field = DMI_SYS_VENDOR | DMI_PRODUCT_NAME

record dmi_data =
  sys_vendor :: string
  product_name :: string

record dmi_system_id =
  ident :: string
  matches :: "(dmi_field \<times> string) list"
  driver_data :: applespi_tp_info

fun strstr :: "string \<Rightarrow> string \<Rightarrow> bool" where
  "strstr [] needle = (needle = [])"
| "strstr (c # cs) needle = (take (length needle) (c # cs) = needle \<or> strstr cs needle)"

definition dmi_get :: "dmi_data \<Rightarrow> dmi_field \<Rightarrow> string" where
  "dmi_get d f = (case f of DMI_SYS_VENDOR \<Rightarrow> sys_vendor d | DMI_PRODUCT_NAME \<Rightarrow> product_name d)"

definition dmi_matches :: "dmi_data \<Rightarrow> dmi_system_id \<Rightarrow> bool" where
  "dmi_matches d e = list_all (\<lambda>(f, s). strstr (dmi_get d f) s) (matches e)"

fun dmi_first_match :: "dmi_data \<Rightarrow> dmi_system_id list \<Rightarrow> dmi_system_id option" where
  "dmi_first_match d [] = None"
| "dmi_first_match d (e # es) = (if dmi_matches d e then Some e else dmi_first_match d es)"

definition applespi_touchpad_infos :: "dmi_system_id list" where
  "applespi_touchpad_infos =
    [\<lparr>ident = ''Apple MacBookPro13,1'',
      matches = [(DMI_SYS_VENDOR, ''Apple Inc.''), (DMI_PRODUCT_NAME, ''MacBookPro13,1'')],
      driver_data = applespi_macbookpro131_info\<rparr>,
     \<lparr>ident = ''Apple MacBookPro13,2'',
      matches = [(DMI_SYS_VENDOR, ''Apple Inc.''), (DMI_PRODUCT_NAME, ''MacBookPro13,2'')],
      driver_data = applespi_macbookpro131_info\<rparr>,
     \<lparr>ident = ''Apple MacBookPro13,3'',
      matches = [(DMI_SYS_VENDOR, ''Apple Inc.''), (DMI_PRODUCT_NAME, ''MacBookPro13,3'')],
      driver_data = applespi_macbookpro133_info\<rparr>,
     \<lparr>ident = ''Apple Generic MacBook(Pro)'',
      matches = [(DMI_SYS_VENDOR, ''Apple Inc.'')],
      driver_data = applespi_default_info\<rparr>]"

text \<open>The calibration \<^verbatim>\<open>applespi_probe\<close> stores; \<open>None\<close> where it dereferences \<^verbatim>\<open>NULL\<close>.\<close>

definition probe_tp_info :: "dmi_data \<Rightarrow> applespi_tp_info option" where
  "probe_tp_info d = map_option driver_data (dmi_first_match d applespi_touchpad_infos)"

section \<open>The caps lock LED\<close>

definition applespi_caps_lock_led_cmd :: "u8 list" where
  "applespi_caps_lock_led_cmd =
    [0x40, 0x01, 0x00, 0x00, 0x00, 0x00, 0x0C, 0x00, 0x51, 0x01, 0x00, 0x00, 0x02, 0x00, 0x02,
     0x00, 0x01, 0x00] @ replicate 236 0x00 @ [0x66, 0x6a]"

text \<open>\<^verbatim>\<open>crc16\<close> is the kernel library's CRC-16 (polynomial \<open>x\<^sup>1\<^sup>6 + x\<^sup>1\<^sup>5 + x\<^sup>2 + 1\<close>, bits
  reflected). The library steps through a table of 256 words; here a byte is folded in bit
  by bit.\<close>

definition crc16_bit :: "u16 \<Rightarrow> u16" where
  "crc16_bit crc = (if bit crc 0 then drop_bit 1 crc XOR 0xA001 else drop_bit 1 crc)"

definition crc16_byte :: "u16 \<Rightarrow> u8 \<Rightarrow> u16" where
  "crc16_byte crc data = (crc16_bit ^^ 8) (crc XOR ucast data)"

fun crc16 :: "u16 \<Rightarrow> u8 list \<Rightarrow> u16" where
  "crc16 crc [] = crc"
| "crc16 crc (d # buffer) = crc16 (crc16_byte crc d) buffer"

text \<open>The command buffer \<^verbatim>\<open>applespi_send_leds_cmd\<close> builds, from the counter value it reads and
  the value of \<^verbatim>\<open>have_cl_led_on\<close>.\<close>

definition led_command :: "u32 \<Rightarrow> bool \<Rightarrow> u8 list" where
  "led_command cntr on =
    (let tx = applespi_caps_lock_led_cmd;
         tx = tx[11 := ucast (cntr AND 0xff)];
         tx = tx[17 := (if on then 2 else 0)];
         crc = crc16 0 (take 10 (drop 8 tx));
         tx = tx[18 := ucast (crc AND 0xff)];
         tx = tx[19 := ucast (drop_bit 8 crc)]
     in tx)"

text \<open>\<^verbatim>\<open>applespi_send_leds_cmd\<close>. The status \<^verbatim>\<open>spi_async\<close> returns is the argument \<open>sts\<close>, given by
  the SPI core. The result is the function's return value, the buffer handed to \<^verbatim>\<open>spi_async\<close>
  if the function got that far, and the new state.\<close>

definition applespi_send_leds_cmd ::
  "int \<Rightarrow> applespi_data \<Rightarrow> int \<times> u8 list option \<times> applespi_data" where
  "applespi_send_leds_cmd sts a =
    (if want_cl_led_on a = have_cl_led_on a \<or> led_msg_queued a then (0, None, a)
     else
       let a = a\<lparr>have_cl_led_on := want_cl_led_on a\<rparr>;
           a = a\<lparr>tx_buffer := led_command (led_msg_cntr a) (have_cl_led_on a),
                 led_msg_cntr := led_msg_cntr a + 1\<rparr>;
           a = (if sts \<noteq> 0 then a else a\<lparr>led_msg_queued := True\<rparr>)
       in (sts, Some (tx_buffer a), a))"

definition applespi_async_write_complete ::
  "int \<Rightarrow> applespi_data \<Rightarrow> int \<times> u8 list option \<times> applespi_data" where
  "applespi_async_write_complete sts a =
    applespi_send_leds_cmd sts (a\<lparr>led_msg_queued := False\<rparr>)"

definition applespi_set_leds ::
  "int \<Rightarrow> applespi_data \<Rightarrow> bool \<Rightarrow> int \<times> u8 list option \<times> applespi_data" where
  "applespi_set_leds sts a capslock_on =
    applespi_send_leds_cmd sts (a\<lparr>want_cl_led_on := capslock_on\<rparr>)"

text \<open>The driver at run time, with the number of LED messages that \<^verbatim>\<open>spi_async\<close> has accepted
  and whose completion has not run yet. A step is a request from the input core, the completion
  of an accepted message, or a received packet.\<close>

inductive led_reach :: "applespi_data \<Rightarrow> nat \<Rightarrow> bool" where
  probed: "led_reach (applespi_probed info tx rx) 0"
| request:
    "led_reach a k \<Longrightarrow> applespi_set_leds sts a on = (r, msg, a') \<Longrightarrow>
     led_reach a' (if msg \<noteq> None \<and> r = 0 then Suc k else k)"
| completion:
    "led_reach a (Suc k) \<Longrightarrow> applespi_async_write_complete sts a = (r, msg, a') \<Longrightarrow>
     led_reach a' (if msg \<noteq> None \<and> r = 0 then Suc k else k)"
| packet:
    "led_reach a k \<Longrightarrow> receive p assign a pkt = Inr (evs, a') \<Longrightarrow> led_reach a' k"

section \<open>Notions the properties are stated with\<close>

text \<open>The second block of \<^verbatim>\<open>applespi_code_to_key\<close> on its own: the ISO swap of a key.\<close>

definition iso_swap :: "module_params \<Rightarrow> nat \<Rightarrow> nat" where
  "iso_swap p key =
    (if iso_layout p \<noteq> 0 then
       (case applespi_find_translation apple_iso_keyboard key of
          None \<Rightarrow> key
        | Some tr \<Rightarrow> tr_to tr)
     else key)"


text \<open>The finger samples of a frame with a non-zero touch-major axis, in array order.\<close>

definition active_fingers :: "touchpad_protocol \<Rightarrow> tp_finger list" where
  "active_fingers t = filter (\<lambda>f. raw2int (touch_major f) \<noteq> 0) (fingers t)"

text \<open>The position the first loop of \<^verbatim>\<open>report_tp_state\<close> stores for a finger sample: the raw
  X, and the Y axis flipped within the calibrated range, each in a signed 16-bit field.\<close>

definition finger_position :: "applespi_tp_info \<Rightarrow> tp_finger \<Rightarrow> input_mt_pos" where
  "finger_position info f =
    \<lparr>mt_x = word_of_int (raw2int (abs_x f)),
     mt_y = word_of_int (y_min info + y_max info - raw2int (abs_y f))\<rparr>"

text \<open>The Y position in the words of section 4.4 of the specification.\<close>

definition section44_y :: "applespi_tp_info \<Rightarrow> tp_finger \<Rightarrow> int" where
  "section44_y info f = y_min info + y_max info - raw2int (abs_y f)"

text \<open>A keyboard packet for the examples, from the modifier byte, the six scancode slots and
  the Fn byte; every other byte is zero.\<close>

definition keyboard_packet :: "u8 \<Rightarrow> u8 list \<Rightarrow> u8 \<Rightarrow> u8 list" where
  "keyboard_packet mods keys fn =
    [0x20, 0x01] @ replicate 15 0 @ [mods, 0] @ take 6 keys @ [fn] @ replicate 230 0"

text \<open>The key a scancode translates to, where the table has it.\<close>

definition translated :: "module_params \<Rightarrow> u8 \<Rightarrow> u8 \<Rightarrow> nat" where
  "translated p code fn = projr (applespi_code_to_key p code (uint fn))"

text \<open>The release events of section 4.3, step 1, over the slots \<open>is\<close>: one for each slot whose
  last scancode is in none of the frame's slots, for the key translated with the Fn state
  stored for the slot.\<close>

definition release_events ::
  "module_params \<Rightarrow> u8 list \<Rightarrow> applespi_data \<Rightarrow> nat list \<Rightarrow> input_call list" where
  "release_events p keys a is =
    concat (map (\<lambda>i. if last_keys_pressed a ! i \<in> set keys then []
                       else [Report_key Keyboard
                               (translated p (last_keys_pressed a ! i)
                                  (last_keys_fn_pressed a ! i)) 0]) is)"

text \<open>The press events of step 2: one for each slot of the frame whose scancode is not zero
  and lies in the table, for the key translated with the frame's Fn state.\<close>

definition press_events :: "module_params \<Rightarrow> keyboard_protocol \<Rightarrow> nat list \<Rightarrow> input_call list" where
  "press_events p kp is =
    concat (map (\<lambda>i. if unat (keys_pressed kp ! i) < length applespi_scancodes \<and>
                          keys_pressed kp ! i \<noteq> 0
                       then [Report_key Keyboard
                               (translated p (keys_pressed kp ! i) (fn_pressed kp)) 1]
                       else []) is)"

text \<open>A touchpad packet for the examples: the sample at index 0 has touch-major 0, the sample
  at index 1 is a finger at (500, 600) with tool axes 120 and 90, orientation 1000 and touch
  axes 100 and 80; the other samples are zero.\<close>

definition second_finger_packet :: "u8 list" where
  "second_finger_packet =
    [0x20, 0x02] @ replicate 62 0 @ replicate 30 0 @
    [0, 0, 0xF4, 0x01, 0x58, 0x02, 0, 0, 0, 0, 0x78, 0, 0x5A, 0, 0xE8, 0x03, 0x64, 0, 0x50, 0,
     0, 0, 0, 0, 0, 0, 0, 0, 0, 0] @ replicate 132 0"

text \<open>A touchpad packet for the examples: the sample at index 0 is a finger at (500, -26168)
  with the shape of the finger above; the other samples are zero.\<close>

definition far_finger_packet :: "u8 list" where
  "far_finger_packet =
    [0x20, 0x02] @ replicate 62 0 @
    [0, 0, 0xF4, 0x01, 0xC8, 0x99, 0, 0, 0, 0, 0x78, 0, 0x5A, 0, 0xE8, 0x03, 0x64, 0, 0x50, 0,
     0, 0, 0, 0, 0, 0, 0, 0, 0, 0] @ replicate 162 0"

text \<open>A slot assignment for the examples: the position at index \<open>i\<close> gets slot \<open>i\<close>.\<close>

definition slot_by_index :: mt_assign where
  "slot_by_index ps i = int i"

text \<open>The values reported on one axis, in the order of the trace.\<close>

fun abs_values :: "abs_axis \<Rightarrow> input_call list \<Rightarrow> int list" where
  "abs_values ax [] = []"
| "abs_values ax (Report_abs ax' v # evs) =
     (if ax' = ax then v # abs_values ax evs else abs_values ax evs)"
| "abs_values ax (_ # evs) = abs_values ax evs"


section \<open>Properties of the key translation\<close>


lemma length_scancodes: "length applespi_scancodes = 101"
  by (simp add: applespi_scancodes_def)



lemma code_to_key_iso_swap:
  "unat code < length applespi_scancodes \<Longrightarrow>
   applespi_code_to_key p code fn =
     Inr (iso_swap p
       (if fnmode p \<noteq> 0 then
          (case applespi_find_translation applespi_fn_codes (applespi_scancodes ! unat code) of
             None \<Rightarrow> applespi_scancodes ! unat code
           | Some tr \<Rightarrow>
               if (if tr_flags tr AND APPLE_FLAG_FKEY \<noteq> 0
                   then (fnmode p = 2 \<and> fn \<noteq> 0) \<or> (fnmode p = 1 \<and> fn = 0)
                   else fn \<noteq> 0)
               then tr_to tr else applespi_scancodes ! unat code)
        else applespi_scancodes ! unat code))"
  by (cases "applespi_find_translation applespi_fn_codes (applespi_scancodes ! unat code)")
     (simp_all add: applespi_code_to_key_def iso_swap_def Let_def cong: option.case_cong)

















section \<open>Properties of the packet dispatch\<close>

lemma upt_6: "[0..<6] = [0, 1, 2, 3, 4, 5]"
  by (simp add: upt_rec)

lemma upt_8: "[0..<8] = [0, 1, 2, 3, 4, 5, 6, 7]"
  by (simp add: upt_rec)

lemma replicate_6: "replicate 6 x = [x, x, x, x, x, x]"
  by (simp add: eval_nat_numeral)


lemma release_keys_queued:
  "release_keys p keys is acc = Inr acc' \<Longrightarrow> led_msg_queued (snd acc') = led_msg_queued (snd acc)"
  by (induction p keys "is" acc rule: release_keys.induct)
     (auto split: if_splits sum.splits)

lemma press_keys_queued:
  "press_keys p kp is acc = Inr acc' \<Longrightarrow> led_msg_queued (snd acc') = led_msg_queued (snd acc)"
  by (induction p kp "is" acc rule: press_keys.induct)
     (auto split: if_splits sum.splits)

lemma report_tp_state_queued:
  "led_msg_queued (snd (report_tp_state assign a t)) = led_msg_queued a"
  by (simp add: report_tp_state_def Let_def split: prod.splits)

lemma got_data_inert:
  "packet_type (keyboard_protocol_of (rx_buffer a)) \<noteq> PACKET_KEYBOARD \<Longrightarrow>
   packet_type (keyboard_protocol_of (rx_buffer a)) \<noteq> PACKET_TOUCHPAD \<Longrightarrow>
   applespi_got_data p assign a = Inr ([], a)"
  by (simp add: applespi_got_data_def Let_def)

lemma got_data_keyboard:
  "packet_type (keyboard_protocol_of (rx_buffer a)) = PACKET_KEYBOARD \<Longrightarrow>
   applespi_got_data p assign a =
     (case release_keys p (keys_pressed (keyboard_protocol_of (rx_buffer a))) [0..<6] ([], a) of
        Inl e \<Rightarrow> Inl e
      | Inr released \<Rightarrow>
          (case press_keys p (keyboard_protocol_of (rx_buffer a)) [0..<6] released of
             Inl e \<Rightarrow> Inl e
           | Inr (evs, a2) \<Rightarrow>
               Inr (evs @ control_keys (keyboard_protocol_of (rx_buffer a)) @
                      function_key (keyboard_protocol_of (rx_buffer a)) a2 @ [Sync Keyboard],
                    a2\<lparr>last_fn_pressed := fn_pressed (keyboard_protocol_of (rx_buffer a)),
                       last_keys_pressed := keys_pressed (keyboard_protocol_of (rx_buffer a))\<rparr>)))"
  by (simp add: applespi_got_data_def Let_def PACKET_KEYBOARD_def PACKET_NOTHING_def
      split: sum.splits prod.splits)

lemma got_data_touchpad:
  "packet_type (keyboard_protocol_of (rx_buffer a)) = PACKET_TOUCHPAD \<Longrightarrow>
   applespi_got_data p assign a =
     Inr (report_tp_state assign a (touchpad_protocol_of (rx_buffer a)))"
  by (simp add: applespi_got_data_def Let_def PACKET_KEYBOARD_def PACKET_NOTHING_def
      PACKET_TOUCHPAD_def)

lemma got_data_queued:
  assumes "applespi_got_data p assign a = Inr (evs, a')"
  shows "led_msg_queued a' = led_msg_queued a"
proof -
  let ?kp = "keyboard_protocol_of (rx_buffer a)"
  consider (kbd) "packet_type ?kp = PACKET_KEYBOARD"
    | (tp) "packet_type ?kp = PACKET_TOUCHPAD"
    | (other) "packet_type ?kp \<noteq> PACKET_KEYBOARD" "packet_type ?kp \<noteq> PACKET_TOUCHPAD"
    by blast
  then show ?thesis
  proof cases
    case kbd
    with assms obtain rel evs2 a2 where
      r: "release_keys p (keys_pressed ?kp) [0..<6] ([], a) = Inr rel"
      and pr: "press_keys p ?kp [0..<6] rel = Inr (evs2, a2)"
      and a': "a' = a2\<lparr>last_fn_pressed := fn_pressed ?kp, last_keys_pressed := keys_pressed ?kp\<rparr>"
      by (auto simp: got_data_keyboard split: sum.splits prod.splits)
    from release_keys_queued [OF r] press_keys_queued [OF pr] a' show ?thesis by simp
  next
    case tp
    with assms have "a' = snd (report_tp_state assign a (touchpad_protocol_of (rx_buffer a)))"
      by (simp add: got_data_touchpad)
    then show ?thesis by (simp add: report_tp_state_queued)
  next
    case other
    with assms show ?thesis by (simp add: got_data_inert)
  qed
qed

section \<open>Packets that are neither keyboard nor touchpad packets\<close>

text \<open>Claim C9. A packet whose type tag is not the keyboard tag and not the touchpad tag, the
  tag of an idle packet among them, makes no call into the input core and leaves the state as
  it is, the receive buffer apart: the last scancodes, their Fn states, the last Fn state, the
  finger positions and the slots are unchanged.\<close>

theorem inert_packet:
  assumes "le16_at pkt 0 \<noteq> PACKET_KEYBOARD" and "le16_at pkt 0 \<noteq> PACKET_TOUCHPAD"
  shows "receive p assign a pkt = Inr ([], a\<lparr>rx_buffer := pkt\<rparr>) \<and>
         last_keys_pressed (a\<lparr>rx_buffer := pkt\<rparr>) = last_keys_pressed a \<and>
         last_keys_fn_pressed (a\<lparr>rx_buffer := pkt\<rparr>) = last_keys_fn_pressed a \<and>
         last_fn_pressed (a\<lparr>rx_buffer := pkt\<rparr>) = last_fn_pressed a \<and>
         pos (a\<lparr>rx_buffer := pkt\<rparr>) = pos a \<and>
         slots (a\<lparr>rx_buffer := pkt\<rparr>) = slots a"
  using assms
  by (simp add: receive_def got_data_inert keyboard_protocol_of_def)

lemma le16_at_Cons2: "le16_at (b0 # b1 # bs) 0 = word_cat b1 b0"
  by (simp add: le16_at_def)

text \<open>An idle packet: the bytes 0x40, 0xD0 are the tag 53312.\<close>

theorem inert_packet_witness:
  "le16_at (0x40 # 0xD0 # replicate 254 0) 0 = PACKET_NOTHING \<and>
   le16_at (0x40 # 0xD0 # replicate 254 0) 0 \<noteq> PACKET_KEYBOARD \<and>
   le16_at (0x40 # 0xD0 # replicate 254 0) 0 \<noteq> PACKET_TOUCHPAD \<and>
   length (0x40 # 0xD0 # replicate 254 (0 :: u8)) = 256 \<and>
   receive \<lparr>fnmode = 1, iso_layout = 0\<rparr> (\<lambda>ps i. int i)
     (applespi_probed applespi_default_info [] []) (0x40 # 0xD0 # replicate 254 0) =
   Inr ([], (applespi_probed applespi_default_info [] [])
              \<lparr>rx_buffer := 0x40 # 0xD0 # replicate 254 0\<rparr>)"
proof -
  have t: "le16_at (0x40 # 0xD0 # replicate 254 0) 0 = 0xD040"
    unfolding le16_at_Cons2 by (simp add: word_cat_eq)
  have h1: "le16_at (0x40 # 0xD0 # replicate 254 0) 0 \<noteq> PACKET_KEYBOARD"
    and h2: "le16_at (0x40 # 0xD0 # replicate 254 0) 0 \<noteq> PACKET_TOUCHPAD"
    unfolding t by (simp_all add: PACKET_KEYBOARD_def PACKET_TOUCHPAD_def)
  from inert_packet [OF h1 h2, of "\<lparr>fnmode = 1, iso_layout = 0\<rparr>" "\<lambda>ps i. int i"
      "applespi_probed applespi_default_info [] []"] h1 h2 t
  show ?thesis by (simp add: PACKET_NOTHING_def)
qed

section \<open>Keyboard frames\<close>

lemma still_pressed_iff: "length keys = 6 \<Longrightarrow> still_pressed k keys \<longleftrightarrow> k \<in> set keys"
  by (auto simp: still_pressed_def in_set_conv_nth)

lemma release_keys_closed:
  assumes "length keys = 6" and "distinct is"
    and "\<forall>i \<in> set is. i < length (last_keys_fn_pressed a)"
    and "\<forall>i \<in> set is. last_keys_pressed a ! i \<notin> set keys \<longrightarrow>
           unat (last_keys_pressed a ! i) < length applespi_scancodes"
  shows "release_keys p keys is (evs, a) =
     Inr (evs @ release_events p keys a is,
          a\<lparr>last_keys_fn_pressed :=
              map (\<lambda>j. if j \<in> set is \<and> last_keys_pressed a ! j \<notin> set keys then 0
                        else last_keys_fn_pressed a ! j)
                [0..<length (last_keys_fn_pressed a)]\<rparr>)"
  using assms(2-)
proof (induction "is" arbitrary: evs a)
  case Nil
  show ?case by (simp add: release_events_def map_nth)
next
  case (Cons i rest)
  show ?case
  proof (cases "last_keys_pressed a ! i \<in> set keys")
    case True
    have "map (\<lambda>j. if j \<in> set rest \<and> last_keys_pressed a ! j \<notin> set keys then 0
                     else last_keys_fn_pressed a ! j) [0..<length (last_keys_fn_pressed a)] =
          map (\<lambda>j. if j \<in> set (i # rest) \<and> last_keys_pressed a ! j \<notin> set keys then 0
                     else last_keys_fn_pressed a ! j) [0..<length (last_keys_fn_pressed a)]"
      using True by (intro map_cong) auto
    with True Cons.prems Cons.IH [of a evs] show ?thesis
      by (simp add: still_pressed_iff [OF assms(1)] release_events_def)
  next
    case False
    let ?a1 = "a\<lparr>last_keys_fn_pressed := (last_keys_fn_pressed a)[i := 0]\<rparr>"
    let ?e = "Report_key Keyboard
                (translated p (last_keys_pressed a ! i) (last_keys_fn_pressed a ! i)) 0"
    from False Cons.prems have inr: "unat (last_keys_pressed a ! i) < length applespi_scancodes"
      by simp
    then obtain key where key: "applespi_code_to_key p (last_keys_pressed a ! i)
        (uint (last_keys_fn_pressed a ! i)) = Inr key"
      by (simp add: code_to_key_iso_swap)
    then have tr: "translated p (last_keys_pressed a ! i) (last_keys_fn_pressed a ! i) = key"
      by (simp add: translated_def)
    from Cons.prems have notin: "i \<notin> set rest" and ilen: "i < length (last_keys_fn_pressed a)"
      by simp_all
    have keep: "(last_keys_fn_pressed a)[i := 0] ! j = last_keys_fn_pressed a ! j"
      if "j \<in> set rest" for j
      using that notin by (intro nth_list_update_neq) auto
    have ev: "release_events p keys ?a1 rest = release_events p keys a rest"
      unfolding release_events_def
      by (intro arg_cong [where f = concat] map_cong) (simp_all add: keep)
    have st: "map (\<lambda>j. if j \<in> set rest \<and> last_keys_pressed ?a1 ! j \<notin> set keys then 0
                        else last_keys_fn_pressed ?a1 ! j)
                [0..<length (last_keys_fn_pressed ?a1)] =
              map (\<lambda>j. if j \<in> set (i # rest) \<and> last_keys_pressed a ! j \<notin> set keys then 0
                        else last_keys_fn_pressed a ! j)
                [0..<length (last_keys_fn_pressed a)]"
      using False notin ilen by (intro map_cong) (auto simp: nth_list_update keep)
    have "release_keys p keys (i # rest) (evs, a) = release_keys p keys rest (evs @ [?e], ?a1)"
      using False key tr by (simp add: still_pressed_iff [OF assms(1)])
    also have "\<dots> = Inr ((evs @ [?e]) @ release_events p keys ?a1 rest,
          ?a1\<lparr>last_keys_fn_pressed :=
              map (\<lambda>j. if j \<in> set rest \<and> last_keys_pressed ?a1 ! j \<notin> set keys then 0
                        else last_keys_fn_pressed ?a1 ! j)
                [0..<length (last_keys_fn_pressed ?a1)]\<rparr>)"
      using Cons.prems by (intro Cons.IH) simp_all
    also have "\<dots> = Inr (evs @ release_events p keys a (i # rest),
          a\<lparr>last_keys_fn_pressed :=
              map (\<lambda>j. if j \<in> set (i # rest) \<and> last_keys_pressed a ! j \<notin> set keys then 0
                        else last_keys_fn_pressed a ! j)
                [0..<length (last_keys_fn_pressed a)]\<rparr>)"
      unfolding ev st using False by (simp add: release_events_def)
    finally show ?thesis .
  qed
qed


lemma press_keys_closed:
  assumes "distinct is" and "\<forall>i \<in> set is. i < length (last_keys_fn_pressed a)"
  shows "press_keys p kp is (evs, a) =
     Inr (evs @ press_events p kp is,
          a\<lparr>last_keys_fn_pressed :=
              map (\<lambda>j. if j \<in> set is \<and> unat (keys_pressed kp ! j) < length applespi_scancodes \<and>
                            keys_pressed kp ! j \<noteq> 0
                        then fn_pressed kp else last_keys_fn_pressed a ! j)
                [0..<length (last_keys_fn_pressed a)]\<rparr>)"
  using assms
proof (induction "is" arbitrary: evs a)
  case Nil
  show ?case by (simp add: press_events_def map_nth)
next
  case (Cons i rest)
  let ?valid = "\<lambda>j. unat (keys_pressed kp ! j) < length applespi_scancodes \<and>
                  keys_pressed kp ! j \<noteq> 0"
  from Cons.prems have notin: "i \<notin> set rest" and ilen: "i < length (last_keys_fn_pressed a)"
    by simp_all
  show ?case
  proof (cases "?valid i")
    case False
    have "map (\<lambda>j. if j \<in> set rest \<and> ?valid j then fn_pressed kp
                     else last_keys_fn_pressed a ! j) [0..<length (last_keys_fn_pressed a)] =
          map (\<lambda>j. if j \<in> set (i # rest) \<and> ?valid j then fn_pressed kp
                     else last_keys_fn_pressed a ! j) [0..<length (last_keys_fn_pressed a)]"
      using False by (intro map_cong) auto
    with False Cons.prems Cons.IH [of a evs] show ?thesis
      by (auto simp: press_events_def word_gt_0)
  next
    case True
    let ?a1 = "a\<lparr>last_keys_fn_pressed := (last_keys_fn_pressed a)[i := fn_pressed kp]\<rparr>"
    let ?e = "Report_key Keyboard (translated p (keys_pressed kp ! i) (fn_pressed kp)) 1"
    from True obtain key where
      key: "applespi_code_to_key p (keys_pressed kp ! i) (uint (fn_pressed kp)) = Inr key"
      by (simp add: code_to_key_iso_swap)
    then have tr: "translated p (keys_pressed kp ! i) (fn_pressed kp) = key"
      by (simp add: translated_def)
    have keep: "(last_keys_fn_pressed a)[i := fn_pressed kp] ! j = last_keys_fn_pressed a ! j"
      if "j \<in> set rest" for j
      using that notin by (intro nth_list_update_neq) auto
    have st: "map (\<lambda>j. if j \<in> set rest \<and> ?valid j then fn_pressed kp
                        else last_keys_fn_pressed ?a1 ! j)
                [0..<length (last_keys_fn_pressed ?a1)] =
              map (\<lambda>j. if j \<in> set (i # rest) \<and> ?valid j then fn_pressed kp
                        else last_keys_fn_pressed a ! j)
                [0..<length (last_keys_fn_pressed a)]"
      using True notin ilen by (intro map_cong) (auto simp: nth_list_update keep)
    have "press_keys p kp (i # rest) (evs, a) = press_keys p kp rest (evs @ [?e], ?a1)"
      using True key tr by (simp add: word_gt_0)
    also have "\<dots> = Inr ((evs @ [?e]) @ press_events p kp rest,
          ?a1\<lparr>last_keys_fn_pressed :=
              map (\<lambda>j. if j \<in> set rest \<and> ?valid j then fn_pressed kp
                        else last_keys_fn_pressed ?a1 ! j)
                [0..<length (last_keys_fn_pressed ?a1)]\<rparr>)"
      using Cons.prems by (intro Cons.IH) simp_all
    also have "\<dots> = Inr (evs @ press_events p kp (i # rest),
          a\<lparr>last_keys_fn_pressed :=
              map (\<lambda>j. if j \<in> set (i # rest) \<and> ?valid j then fn_pressed kp
                        else last_keys_fn_pressed a ! j)
                [0..<length (last_keys_fn_pressed a)]\<rparr>)"
      unfolding st using True by (simp add: press_events_def)
    finally show ?thesis .
  qed
qed


lemma length_release_events:
  "length (release_events p keys a is) =
     length (filter (\<lambda>i. last_keys_pressed a ! i \<notin> set keys) is)"
  by (induction "is") (simp_all add: release_events_def)

lemma keyboard_protocol_keys: "length (keys_pressed (keyboard_protocol_of pkt)) = 6"
  by (simp add: keyboard_protocol_of_def)

lemma keyboard_packet_decoded:
  "keyboard_protocol_of (keyboard_packet m [k0, k1, k2, k3, k4, k5] fn) =
     \<lparr>packet_type = PACKET_KEYBOARD, counter = 0, modifiers = m,
      keys_pressed = [k0, k1, k2, k3, k4, k5], fn_pressed = fn\<rparr>"
  by (simp add: keyboard_protocol_of_def keyboard_packet_def le16_at_def nth_append upt_6
      PACKET_KEYBOARD_def word_cat_eq)

lemma keyboard_packet_tag:
  "le16_at (keyboard_packet m keys fn) 0 = PACKET_KEYBOARD"
  by (simp add: keyboard_packet_def le16_at_def PACKET_KEYBOARD_def word_cat_eq)

lemma length_keyboard_packet: "length (keyboard_packet m [k0, k1, k2, k3, k4, k5] fn) = 256"
  by (simp add: keyboard_packet_def)

lemma control_keys_none:
  "control_keys \<lparr>packet_type = t, counter = c, modifiers = 0, keys_pressed = ks, fn_pressed = fn\<rparr> =
    [Report_key Keyboard KEY_LEFTCTRL 0, Report_key Keyboard KEY_LEFTSHIFT 0,
     Report_key Keyboard KEY_LEFTALT 0, Report_key Keyboard KEY_LEFTMETA 0,
     Report_key Keyboard 0 0, Report_key Keyboard KEY_RIGHTSHIFT 0,
     Report_key Keyboard KEY_RIGHTALT 0, Report_key Keyboard KEY_RIGHTMETA 0]"
  by (simp add: control_keys_def upt_8 applespi_controlcodes_def)

text \<open>Claim C4. For a keyboard packet and a history whose released scancodes lie in the
  scancode table: the release scan reports, for each slot of the history whose scancode is in
  none of the six slots of the frame, one release event, for the key that the scancode
  translates to with the Fn state stored for that slot, and it sets that stored Fn state to 0;
  it reports nothing for the other slots and leaves their Fn state. The whole packet then
  reports the press events, the modifiers, the Fn key and a sync, stores the frame's Fn state
  for the slots it pressed, and ends with the six scancodes of the frame as the new history.\<close>

theorem release_detection:
  assumes "le16_at pkt 0 = PACKET_KEYBOARD"
    and "length (last_keys_pressed a) = MAX_ROLLOVER"
    and "length (last_keys_fn_pressed a) = MAX_ROLLOVER"
    and "\<forall>i < MAX_ROLLOVER.
           last_keys_pressed a ! i \<notin> set (keys_pressed (keyboard_protocol_of pkt)) \<longrightarrow>
           unat (last_keys_pressed a ! i) < length applespi_scancodes"
  shows "release_keys p (keys_pressed (keyboard_protocol_of pkt)) [0..<6]
           ([], a\<lparr>rx_buffer := pkt\<rparr>) =
         Inr (release_events p (keys_pressed (keyboard_protocol_of pkt)) a [0..<6],
              a\<lparr>rx_buffer := pkt,
                last_keys_fn_pressed :=
                  map (\<lambda>i. if last_keys_pressed a ! i \<notin> set (keys_pressed (keyboard_protocol_of pkt))
                            then 0 else last_keys_fn_pressed a ! i) [0..<6]\<rparr>) \<and>
         length (release_events p (keys_pressed (keyboard_protocol_of pkt)) a [0..<6]) =
           length (filter (\<lambda>i. last_keys_pressed a ! i \<notin>
                                   set (keys_pressed (keyboard_protocol_of pkt))) [0..<6]) \<and>
         (\<forall>i < MAX_ROLLOVER.
            last_keys_pressed a ! i \<notin> set (keys_pressed (keyboard_protocol_of pkt)) \<longrightarrow>
            applespi_code_to_key p (last_keys_pressed a ! i) (uint (last_keys_fn_pressed a ! i)) =
              Inr (translated p (last_keys_pressed a ! i) (last_keys_fn_pressed a ! i))) \<and>
         receive p assign a pkt =
         Inr (release_events p (keys_pressed (keyboard_protocol_of pkt)) a [0..<6] @
              press_events p (keyboard_protocol_of pkt) [0..<6] @
              control_keys (keyboard_protocol_of pkt) @
              function_key (keyboard_protocol_of pkt) a @ [Sync Keyboard],
              a\<lparr>rx_buffer := pkt,
                last_keys_fn_pressed :=
                  map (\<lambda>i. if unat (keys_pressed (keyboard_protocol_of pkt) ! i)
                                 < length applespi_scancodes \<and>
                               keys_pressed (keyboard_protocol_of pkt) ! i \<noteq> 0
                            then fn_pressed (keyboard_protocol_of pkt)
                            else if last_keys_pressed a ! i \<notin>
                                      set (keys_pressed (keyboard_protocol_of pkt))
                            then 0 else last_keys_fn_pressed a ! i) [0..<6],
                last_fn_pressed := fn_pressed (keyboard_protocol_of pkt),
                last_keys_pressed := keys_pressed (keyboard_protocol_of pkt)\<rparr>)"
proof -
  let ?kp = "keyboard_protocol_of pkt"
  let ?a = "a\<lparr>rx_buffer := pkt\<rparr>"
  let ?rel = "\<lambda>i. last_keys_pressed a ! i \<notin> set (keys_pressed ?kp)"
  let ?valid = "\<lambda>i. unat (keys_pressed ?kp ! i) < length applespi_scancodes \<and>
                     keys_pressed ?kp ! i \<noteq> 0"
  let ?a1 = "?a\<lparr>last_keys_fn_pressed :=
                 map (\<lambda>i. if ?rel i then 0 else last_keys_fn_pressed a ! i) [0..<6]\<rparr>"
  have len: "length (last_keys_fn_pressed ?a) = 6"
    using assms(3) by (simp add: MAX_ROLLOVER_def)
  have r: "release_keys p (keys_pressed ?kp) [0..<6] ([], ?a) =
      Inr (release_events p (keys_pressed ?kp) a [0..<6], ?a1)"
  proof -
    have "release_keys p (keys_pressed ?kp) [0..<6] ([], ?a) =
      Inr ([] @ release_events p (keys_pressed ?kp) ?a [0..<6],
           ?a\<lparr>last_keys_fn_pressed :=
              map (\<lambda>j. if j \<in> set [0..<6] \<and> last_keys_pressed ?a ! j \<notin> set (keys_pressed ?kp)
                        then 0 else last_keys_fn_pressed ?a ! j)
                [0..<length (last_keys_fn_pressed ?a)]\<rparr>)"
      using assms(4) len
      by (intro release_keys_closed keyboard_protocol_keys) (simp_all add: MAX_ROLLOVER_def)
    also have "\<dots> = Inr (release_events p (keys_pressed ?kp) a [0..<6], ?a1)"
      using len by (simp add: release_events_def cong: if_cong)
    finally show ?thesis .
  qed
  have pr: "press_keys p ?kp [0..<6] (release_events p (keys_pressed ?kp) a [0..<6], ?a1) =
      Inr (release_events p (keys_pressed ?kp) a [0..<6] @ press_events p ?kp [0..<6],
           ?a\<lparr>last_keys_fn_pressed :=
                map (\<lambda>i. if ?valid i then fn_pressed ?kp
                          else if ?rel i then 0 else last_keys_fn_pressed a ! i) [0..<6]\<rparr>)"
  proof -
    have "press_keys p ?kp [0..<6] (release_events p (keys_pressed ?kp) a [0..<6], ?a1) =
      Inr (release_events p (keys_pressed ?kp) a [0..<6] @ press_events p ?kp [0..<6],
           ?a1\<lparr>last_keys_fn_pressed :=
              map (\<lambda>j. if j \<in> set [0..<6] \<and> ?valid j then fn_pressed ?kp
                        else last_keys_fn_pressed ?a1 ! j)
                [0..<length (last_keys_fn_pressed ?a1)]\<rparr>)"
      by (intro press_keys_closed) simp_all
    also have "\<dots> = Inr (release_events p (keys_pressed ?kp) a [0..<6] @ press_events p ?kp [0..<6],
           ?a\<lparr>last_keys_fn_pressed :=
                map (\<lambda>i. if ?valid i then fn_pressed ?kp
                          else if ?rel i then 0 else last_keys_fn_pressed a ! i) [0..<6]\<rparr>)"
      by (simp cong: map_cong if_cong)
    finally show ?thesis .
  qed
  have tag: "packet_type (keyboard_protocol_of (rx_buffer ?a)) = PACKET_KEYBOARD"
    using assms(1) by (simp add: keyboard_protocol_of_def)
  have "receive p assign a pkt = applespi_got_data p assign ?a"
    by (simp add: receive_def)
  also have "\<dots> =
         Inr (release_events p (keys_pressed ?kp) a [0..<6] @ press_events p ?kp [0..<6] @
              control_keys ?kp @ function_key ?kp a @ [Sync Keyboard],
              a\<lparr>rx_buffer := pkt,
                last_keys_fn_pressed :=
                  map (\<lambda>i. if ?valid i then fn_pressed ?kp
                            else if ?rel i then 0 else last_keys_fn_pressed a ! i) [0..<6],
                last_fn_pressed := fn_pressed ?kp,
                last_keys_pressed := keys_pressed ?kp\<rparr>)"
    unfolding got_data_keyboard [OF tag] using r pr
    by (simp add: function_key_def)
  finally have whole: "receive p assign a pkt =
         Inr (release_events p (keys_pressed ?kp) a [0..<6] @ press_events p ?kp [0..<6] @
              control_keys ?kp @ function_key ?kp a @ [Sync Keyboard],
              a\<lparr>rx_buffer := pkt,
                last_keys_fn_pressed :=
                  map (\<lambda>i. if ?valid i then fn_pressed ?kp
                            else if ?rel i then 0 else last_keys_fn_pressed a ! i) [0..<6],
                last_fn_pressed := fn_pressed ?kp,
                last_keys_pressed := keys_pressed ?kp\<rparr>)" .
  have keys: "\<forall>i < MAX_ROLLOVER. ?rel i \<longrightarrow>
      applespi_code_to_key p (last_keys_pressed a ! i) (uint (last_keys_fn_pressed a ! i)) =
        Inr (translated p (last_keys_pressed a ! i) (last_keys_fn_pressed a ! i))"
    using assms(4) by (auto simp: translated_def code_to_key_iso_swap)
  from r whole keys show ?thesis
    by (simp add: length_release_events)
qed

text \<open>F1 and A were pressed with Fn held; F1 is released in a frame without Fn. The release
  is reported for F1, the key pressed, where the frame's own Fn state would give
  brightness-down.\<close>

theorem release_detection_witness:
  "le16_at (keyboard_packet 0 [4, 0, 0, 0, 0, 0] 0) 0 = PACKET_KEYBOARD \<and>
   unat (58 :: u8) < length applespi_scancodes \<and>
   applespi_code_to_key \<lparr>fnmode = 1, iso_layout = 0\<rparr> 58 0 = Inr KEY_BRIGHTNESSDOWN \<and>
   receive \<lparr>fnmode = 1, iso_layout = 0\<rparr> (\<lambda>ps i. int i)
     ((applespi_probed applespi_default_info [] [])
        \<lparr>last_keys_pressed := [58, 4, 0, 0, 0, 0],
          last_keys_fn_pressed := [1, 1, 0, 0, 0, 0], last_fn_pressed := 1\<rparr>)
     (keyboard_packet 0 [4, 0, 0, 0, 0, 0] 0) =
   Inr ([Report_key Keyboard KEY_F1 0, Report_key Keyboard KEY_A 1,
         Report_key Keyboard KEY_LEFTCTRL 0, Report_key Keyboard KEY_LEFTSHIFT 0,
         Report_key Keyboard KEY_LEFTALT 0, Report_key Keyboard KEY_LEFTMETA 0,
         Report_key Keyboard 0 0, Report_key Keyboard KEY_RIGHTSHIFT 0,
         Report_key Keyboard KEY_RIGHTALT 0, Report_key Keyboard KEY_RIGHTMETA 0,
         Report_key Keyboard KEY_FN 0, Sync Keyboard],
        (applespi_probed applespi_default_info [] [])
          \<lparr>rx_buffer := keyboard_packet 0 [4, 0, 0, 0, 0, 0] 0,
            last_keys_pressed := [4, 0, 0, 0, 0, 0],
            last_keys_fn_pressed := [0, 1, 0, 0, 0, 0], last_fn_pressed := 0\<rparr>)"
proof -
  let ?a = "(applespi_probed applespi_default_info [] [])
        \<lparr>last_keys_pressed := [58, 4, 0, 0, 0, 0],
          last_keys_fn_pressed := [1, 1, 0, 0, 0, 0], last_fn_pressed := 1\<rparr>"
  let ?pkt = "keyboard_packet 0 [4, 0, 0, 0, 0, 0] 0"
  have h1: "le16_at ?pkt 0 = PACKET_KEYBOARD"
    by (rule keyboard_packet_tag)
  have h2: "length (last_keys_pressed ?a) = MAX_ROLLOVER"
    and h3: "length (last_keys_fn_pressed ?a) = MAX_ROLLOVER"
    by (simp_all add: MAX_ROLLOVER_def)
  have all6: "(\<forall>i < 6. Q i) \<longleftrightarrow> Q 0 \<and> Q 1 \<and> Q 2 \<and> Q 3 \<and> Q 4 \<and> Q (5 :: nat)" for Q
  proof -
    have "(\<forall>i < 6. Q i) \<longleftrightarrow> (\<forall>i \<in> set [0..<6]. Q i)" by auto
    then show ?thesis unfolding upt_6 by simp
  qed
  have h4: "\<forall>i < MAX_ROLLOVER.
      last_keys_pressed ?a ! i \<notin> set (keys_pressed (keyboard_protocol_of ?pkt)) \<longrightarrow>
      unat (last_keys_pressed ?a ! i) < length applespi_scancodes"
    by (simp add: MAX_ROLLOVER_def all6 keyboard_packet_decoded length_scancodes)
  have t1: "translated \<lparr>fnmode = 1, iso_layout = 0\<rparr> 58 1 = KEY_F1"
    and t2: "translated \<lparr>fnmode = 1, iso_layout = 0\<rparr> 4 0 = KEY_A"
    and t3: "applespi_code_to_key \<lparr>fnmode = 1, iso_layout = 0\<rparr> 58 0 = Inr KEY_BRIGHTNESSDOWN"
    by (simp_all add: translated_def applespi_code_to_key_def applespi_scancodes_def
        applespi_fn_codes_def entry_def APPLE_FLAG_FKEY_def keycodes)
  from release_detection [OF h1 h2 h3 h4, of "\<lparr>fnmode = 1, iso_layout = 0\<rparr>" "\<lambda>ps i. int i"]
  have "receive \<lparr>fnmode = 1, iso_layout = 0\<rparr> (\<lambda>ps i. int i) ?a ?pkt =
   Inr ([Report_key Keyboard KEY_F1 0, Report_key Keyboard KEY_A 1,
         Report_key Keyboard KEY_LEFTCTRL 0, Report_key Keyboard KEY_LEFTSHIFT 0,
         Report_key Keyboard KEY_LEFTALT 0, Report_key Keyboard KEY_LEFTMETA 0,
         Report_key Keyboard 0 0, Report_key Keyboard KEY_RIGHTSHIFT 0,
         Report_key Keyboard KEY_RIGHTALT 0, Report_key Keyboard KEY_RIGHTMETA 0,
         Report_key Keyboard KEY_FN 0, Sync Keyboard],
        (applespi_probed applespi_default_info [] [])
          \<lparr>rx_buffer := ?pkt, last_keys_pressed := [4, 0, 0, 0, 0, 0],
            last_keys_fn_pressed := [0, 1, 0, 0, 0, 0], last_fn_pressed := 0\<rparr>)"
    by (simp add: keyboard_packet_decoded release_events_def press_events_def upt_6
        control_keys_none function_key_def length_scancodes t1 t2 applespi_probed_def)
  with h1 t3 show ?thesis by (simp add: length_scancodes)
qed

text \<open>Claim C3 fails on the code, on the release path. From the probed state, a frame with
  scancode 200 in slot 0 reports no press for it and stores it in the history. The next frame,
  without it, makes the release scan translate 200, which reads beyond the 101 entries of the
  scancode table.\<close>

theorem release_path_overrun:
  "receive p assign (applespi_probed info tx rx) (keyboard_packet 0 [200, 0, 0, 0, 0, 0] 0) =
     Inr ([Report_key Keyboard KEY_LEFTCTRL 0, Report_key Keyboard KEY_LEFTSHIFT 0,
           Report_key Keyboard KEY_LEFTALT 0, Report_key Keyboard KEY_LEFTMETA 0,
           Report_key Keyboard 0 0, Report_key Keyboard KEY_RIGHTSHIFT 0,
           Report_key Keyboard KEY_RIGHTALT 0, Report_key Keyboard KEY_RIGHTMETA 0,
           Sync Keyboard],
          (applespi_probed info tx rx)
            \<lparr>rx_buffer := keyboard_packet 0 [200, 0, 0, 0, 0, 0] 0,
              last_keys_pressed := [200, 0, 0, 0, 0, 0]\<rparr>) \<and>
   \<not> unat (200 :: u8) < length applespi_scancodes \<and>
   receive p assign
     ((applespi_probed info tx rx)
        \<lparr>rx_buffer := keyboard_packet 0 [200, 0, 0, 0, 0, 0] 0,
          last_keys_pressed := [200, 0, 0, 0, 0, 0]\<rparr>)
     (keyboard_packet 0 [0, 0, 0, 0, 0, 0] 0) = Inl (TableOverrun 200)"
proof -
  let ?P = "applespi_probed info tx rx"
  let ?pkt1 = "keyboard_packet 0 [200, 0, 0, 0, 0, 0] 0"
  let ?pkt2 = "keyboard_packet 0 [0, 0, 0, 0, 0, 0] 0"
  have first: "receive p assign ?P ?pkt1 =
     Inr ([Report_key Keyboard KEY_LEFTCTRL 0, Report_key Keyboard KEY_LEFTSHIFT 0,
           Report_key Keyboard KEY_LEFTALT 0, Report_key Keyboard KEY_LEFTMETA 0,
           Report_key Keyboard 0 0, Report_key Keyboard KEY_RIGHTSHIFT 0,
           Report_key Keyboard KEY_RIGHTALT 0, Report_key Keyboard KEY_RIGHTMETA 0,
           Sync Keyboard],
          ?P\<lparr>rx_buffer := ?pkt1, last_keys_pressed := [200, 0, 0, 0, 0, 0]\<rparr>)"
    by (simp add: receive_def got_data_keyboard keyboard_packet_decoded upt_6 still_pressed_def
        length_scancodes control_keys_none function_key_def applespi_probed_def
        MAX_ROLLOVER_def replicate_6)
  have big: "\<not> unat (200 :: u8) < length applespi_scancodes"
    by (simp add: length_scancodes)
  have second: "receive p assign
      (?P\<lparr>rx_buffer := ?pkt1, last_keys_pressed := [200, 0, 0, 0, 0, 0]\<rparr>) ?pkt2 =
      Inl (TableOverrun 200)"
    by (simp add: receive_def got_data_keyboard keyboard_packet_decoded upt_6 still_pressed_def
        applespi_code_to_key_def length_scancodes)
  from first big second show ?thesis by simp
qed

text \<open>A slot of the history that holds 0 while all six slots of the frame are taken is released as
  key 0: scancode 0 is in the table, and the release scan does not test for it.\<close>

lemma release_of_empty_slots:
  "receive \<lparr>fnmode = 1, iso_layout = 0\<rparr> assign (applespi_probed info tx rx)
     (keyboard_packet 0 [4, 5, 6, 7, 8, 9] 0) =
   Inr (replicate 6 (Report_key Keyboard 0 0) @
        [Report_key Keyboard KEY_A 1, Report_key Keyboard KEY_B 1, Report_key Keyboard KEY_C 1,
         Report_key Keyboard KEY_D 1, Report_key Keyboard KEY_E 1, Report_key Keyboard KEY_F 1,
         Report_key Keyboard KEY_LEFTCTRL 0, Report_key Keyboard KEY_LEFTSHIFT 0,
         Report_key Keyboard KEY_LEFTALT 0, Report_key Keyboard KEY_LEFTMETA 0,
         Report_key Keyboard 0 0, Report_key Keyboard KEY_RIGHTSHIFT 0,
         Report_key Keyboard KEY_RIGHTALT 0, Report_key Keyboard KEY_RIGHTMETA 0,
         Sync Keyboard],
        (applespi_probed info tx rx)
          \<lparr>rx_buffer := keyboard_packet 0 [4, 5, 6, 7, 8, 9] 0,
            last_keys_pressed := [4, 5, 6, 7, 8, 9]\<rparr>)"
  by (simp add: receive_def got_data_keyboard keyboard_packet_decoded upt_6 still_pressed_def
      length_scancodes control_keys_none function_key_def applespi_probed_def
      MAX_ROLLOVER_def replicate_6 applespi_code_to_key_def applespi_scancodes_def
      applespi_fn_codes_def entry_def keycodes)

section \<open>Touchpad frames\<close>


lemma length_second_finger_packet: "length second_finger_packet = 256"
  by (simp add: second_finger_packet_def)

lemma second_finger_packet_tag: "le16_at second_finger_packet 0 = PACKET_TOUCHPAD"
  by (simp add: second_finger_packet_def le16_at_def PACKET_TOUCHPAD_def word_cat_eq)

lemma second_finger_packet_fingers:
  "fingers (touchpad_protocol_of second_finger_packet) =
    [\<lparr>origin = 0, abs_x = 0, abs_y = 0, rel_x = 0, rel_y = 0, tool_major = 0, tool_minor = 0,
      orientation = 0, touch_major = 0, touch_minor = 0, pressure = 0, multi = 0\<rparr>,
     \<lparr>origin = 0, abs_x = 500, abs_y = 600, rel_x = 0, rel_y = 0, tool_major = 120,
      tool_minor = 90, orientation = 1000, touch_major = 100, touch_minor = 80, pressure = 0,
      multi = 0\<rparr>,
     \<lparr>origin = 0, abs_x = 0, abs_y = 0, rel_x = 0, rel_y = 0, tool_major = 0, tool_minor = 0,
      orientation = 0, touch_major = 0, touch_minor = 0, pressure = 0, multi = 0\<rparr>,
     \<lparr>origin = 0, abs_x = 0, abs_y = 0, rel_x = 0, rel_y = 0, tool_major = 0, tool_minor = 0,
      orientation = 0, touch_major = 0, touch_minor = 0, pressure = 0, multi = 0\<rparr>,
     \<lparr>origin = 0, abs_x = 0, abs_y = 0, rel_x = 0, rel_y = 0, tool_major = 0, tool_minor = 0,
      orientation = 0, touch_major = 0, touch_minor = 0, pressure = 0, multi = 0\<rparr>,
     \<lparr>origin = 0, abs_x = 0, abs_y = 0, rel_x = 0, rel_y = 0, tool_major = 0, tool_minor = 0,
      orientation = 0, touch_major = 0, touch_minor = 0, pressure = 0, multi = 0\<rparr>]"
  by (simp add: touchpad_protocol_of_def MAX_FINGERS_def upt_6 tp_finger_of_def le16_at_def
      second_finger_packet_def nth_append word_cat_eq)




lemma collect_positions_fst:
  "fst (collect_positions info fs n ps) =
     n + length (filter (\<lambda>f. raw2int (touch_major f) \<noteq> 0) fs)"
  by (induction fs arbitrary: n ps) auto

lemma collect_positions_length:
  "length (snd (collect_positions info fs n ps)) = length ps"
  by (induction fs arbitrary: n ps) auto

lemma collect_positions_keep:
  "j < n \<Longrightarrow> snd (collect_positions info fs n ps) ! j = ps ! j"
  by (induction fs arbitrary: n ps) auto

lemma collect_positions_nth:
  "n + length (filter (\<lambda>f. raw2int (touch_major f) \<noteq> 0) fs) \<le> length ps \<Longrightarrow>
   i < length (filter (\<lambda>f. raw2int (touch_major f) \<noteq> 0) fs) \<Longrightarrow>
   snd (collect_positions info fs n ps) ! (n + i) =
     finger_position info (filter (\<lambda>f. raw2int (touch_major f) \<noteq> 0) fs ! i)"
proof (induction fs arbitrary: n ps i)
  case Nil
  then show ?case by simp
next
  case (Cons f fs)
  show ?case
  proof (cases "raw2int (touch_major f) \<noteq> 0")
    case False
    with Cons show ?thesis by simp
  next
    case True
    show ?thesis
    proof (cases i)
      case 0
      with True Cons.prems show ?thesis
        by (simp add: collect_positions_keep finger_position_def)
    next
      case (Suc i')
      with True Cons.prems Cons.IH [of "Suc n" _ i'] show ?thesis
        by simp
    qed
  qed
qed

lemma collect_positions_active:
  assumes "length (fingers t) \<le> length (pos a)"
  shows "collect_positions (tp_info a) (fingers t) 0 (pos a) =
           (length (active_fingers t), snd (collect_positions (tp_info a) (fingers t) 0 (pos a)))"
    and "take (length (active_fingers t)) (snd (collect_positions (tp_info a) (fingers t) 0 (pos a)))
           = map (finger_position (tp_info a)) (active_fingers t)"
proof -
  let ?ps = "snd (collect_positions (tp_info a) (fingers t) 0 (pos a))"
  have n: "fst (collect_positions (tp_info a) (fingers t) 0 (pos a)) = length (active_fingers t)"
    by (simp add: collect_positions_fst active_fingers_def)
  then show "collect_positions (tp_info a) (fingers t) 0 (pos a) = (length (active_fingers t), ?ps)"
    by (metis prod.collapse)
  have le: "length (active_fingers t) \<le> length (pos a)"
    unfolding active_fingers_def by (rule le_trans [OF length_filter_le assms])
  show "take (length (active_fingers t)) ?ps = map (finger_position (tp_info a)) (active_fingers t)"
  proof (rule nth_equalityI)
    show "length (take (length (active_fingers t)) ?ps) =
          length (map (finger_position (tp_info a)) (active_fingers t))"
      using le by (simp add: collect_positions_length)
  next
    fix i
    assume "i < length (take (length (active_fingers t)) ?ps)"
    then have i: "i < length (active_fingers t)" by simp
    with le collect_positions_nth [of 0 "fingers t" "pos a" i "tp_info a"]
    show "take (length (active_fingers t)) ?ps ! i =
          map (finger_position (tp_info a)) (active_fingers t) ! i"
      by (simp add: active_fingers_def)
  qed
qed

text \<open>What \<^verbatim>\<open>report_tp_state\<close> reports: for each \<open>i\<close> below the number of active fingers, the
  slot the input core assigned, the position of the \<open>i\<close>-th active finger, and the shape of the
  sample at index \<open>i\<close> of the frame.\<close>

lemma report_tp_state_trace:
  assumes "length (fingers t) \<le> length (pos a)"
  shows "fst (report_tp_state assign a t) =
     concat (map (\<lambda>i. report_finger_data
                        (slots (snd (report_tp_state assign a t)) ! i)
                        (finger_position (tp_info a) (active_fingers t ! i))
                        (fingers t ! i))
               [0..<length (active_fingers t)]) @
     [Mt_sync_frame, Report_key Touchpad BTN_LEFT (uint (clicked t)), Sync Touchpad]"
proof -
  obtain n ps where c: "collect_positions (tp_info a) (fingers t) 0 (pos a) = (n, ps)"
    by force
  from collect_positions_active [OF assms] c
  have n: "n = length (active_fingers t)"
    and tk: "take n ps = map (finger_position (tp_info a)) (active_fingers t)"
    by simp_all
  have nth: "ps ! i = finger_position (tp_info a) (active_fingers t ! i)"
    if "i < length (active_fingers t)" for i
    using tk that n by (metis nth_map nth_take)
  let ?a' = "snd (report_tp_state assign a t)"
  have "fst (report_tp_state assign a t) =
     concat (map (\<lambda>i. report_finger_data (slots ?a' ! i) (ps ! i) (fingers t ! i))
               [0..<length (active_fingers t)]) @
     [Mt_sync_frame, Report_key Touchpad BTN_LEFT (uint (clicked t)), Sync Touchpad]"
    by (simp add: report_tp_state_def c Let_def n)
  also have "map (\<lambda>i. report_finger_data (slots ?a' ! i) (ps ! i) (fingers t ! i))
               [0..<length (active_fingers t)] =
             map (\<lambda>i. report_finger_data (slots ?a' ! i)
                         (finger_position (tp_info a) (active_fingers t ! i)) (fingers t ! i))
               [0..<length (active_fingers t)]"
    by (rule map_cong) (simp_all add: nth)
  finally show ?thesis .
qed

lemma abs_values_append: "abs_values ax (xs @ ys) = abs_values ax xs @ abs_values ax ys"
  by (induction ax xs rule: abs_values.induct) simp_all

lemma abs_values_fingers_x:
  "abs_values ABS_MT_POSITION_X
     (concat (map (\<lambda>i. report_finger_data (sl i) (ps i) (f i)) is)) =
   map (\<lambda>i. sint (mt_x (ps i))) is"
  by (induction "is") (simp_all add: abs_values_append report_finger_data_def)

lemma abs_values_fingers_y:
  "abs_values ABS_MT_POSITION_Y
     (concat (map (\<lambda>i. report_finger_data (sl i) (ps i) (f i)) is)) =
   map (\<lambda>i. sint (mt_y (ps i))) is"
  by (induction "is") (simp_all add: abs_values_append report_finger_data_def)

lemma map_nth_upt: "map (\<lambda>i. g (xs ! i)) [0..<length xs] = map g xs"
  by (rule nth_equalityI) simp_all

lemma probe_tp_info_cases:
  "probe_tp_info d =
    (if \<not> strstr (sys_vendor d) ''Apple Inc.'' then None
     else if strstr (product_name d) ''MacBookPro13,1'' then Some applespi_macbookpro131_info
     else if strstr (product_name d) ''MacBookPro13,2'' then Some applespi_macbookpro131_info
     else if strstr (product_name d) ''MacBookPro13,3'' then Some applespi_macbookpro133_info
     else Some applespi_default_info)"
  by (simp add: probe_tp_info_def applespi_touchpad_infos_def dmi_matches_def dmi_get_def)

text \<open>A value in the signed 16-bit range is stored and read back unchanged; whatever is
  stored reads back within that range.\<close>

lemma s16_store_fits:
  "- 32768 \<le> v \<Longrightarrow> v \<le> 32767 \<Longrightarrow> sint (word_of_int v :: s16) = v"
  by (simp add: sint_sbintrunc' signed_take_bit_int_eq_self)

lemma s16_store_range: "- 32768 \<le> sint (w :: s16) \<and> sint w \<le> 32767"
  using sint_ge [of w] sint_lt [of w] by simp

text \<open>With each of the three calibrations, the flip keeps a sample of the calibrated range
  within that range, so within the 16 bits.\<close>

lemma flipped_y_fits:
  assumes "info \<in> {applespi_macbookpro131_info, applespi_macbookpro133_info, applespi_default_info}"
    and "y_min info \<le> raw2int (abs_y f)" and "raw2int (abs_y f) \<le> y_max info"
  shows "sint (mt_y (finger_position info f)) = section44_y info f"
proof -
  have "- 32768 \<le> y_min info" and "y_max info \<le> 32767"
    using assms(1)
    by (auto simp: applespi_macbookpro131_info_def applespi_macbookpro133_info_def
        applespi_default_info_def)
  with assms(2,3) have "- 32768 \<le> section44_y info f" and "section44_y info f \<le> 32767"
    by (simp_all add: section44_y_def)
  then have "sint (word_of_int (section44_y info f) :: s16) = section44_y info f"
    by (rule s16_store_fits)
  then show ?thesis
    by (simp add: finger_position_def section44_y_def)
qed

text \<open>Claim C8, as amended. For a touchpad packet, the X positions reported are the raw
  absolute X of the active finger samples, in their order. The Y positions reported are
  \<open>y_min + y_max - raw_abs_y\<close> of the same samples as a signed 16-bit field holds it: the
  value itself wherever it lies between -32768 and 32767, which it does for every sample
  within the calibrated range, and the value wrapped into that range otherwise. These
  are also the positions stored for the slot assignment. The calibration is the one
  \<^verbatim>\<open>applespi_probe\<close> selected from the DMI data: that of the first matching model, and the generic
  one when no specific model matches.\<close>

theorem finger_positions:
  assumes "le16_at pkt 0 = PACKET_TOUCHPAD" and "length (pos a) = MAX_FINGERS"
    and "probe_tp_info d = Some (tp_info a)"
  shows "receive p assign a pkt =
       Inr (report_tp_state assign (a\<lparr>rx_buffer := pkt\<rparr>) (touchpad_protocol_of pkt)) \<and>
     abs_values ABS_MT_POSITION_X
         (fst (report_tp_state assign (a\<lparr>rx_buffer := pkt\<rparr>) (touchpad_protocol_of pkt))) =
       map (\<lambda>f. raw2int (abs_x f)) (active_fingers (touchpad_protocol_of pkt)) \<and>
     abs_values ABS_MT_POSITION_Y
         (fst (report_tp_state assign (a\<lparr>rx_buffer := pkt\<rparr>) (touchpad_protocol_of pkt))) =
       map (\<lambda>f. sint (word_of_int (section44_y (tp_info a) f) :: s16))
         (active_fingers (touchpad_protocol_of pkt)) \<and>
     ((\<forall>f \<in> set (active_fingers (touchpad_protocol_of pkt)).
         - 32768 \<le> section44_y (tp_info a) f \<and> section44_y (tp_info a) f \<le> 32767) \<longrightarrow>
      abs_values ABS_MT_POSITION_Y
         (fst (report_tp_state assign (a\<lparr>rx_buffer := pkt\<rparr>) (touchpad_protocol_of pkt))) =
       map (section44_y (tp_info a)) (active_fingers (touchpad_protocol_of pkt))) \<and>
     ((\<forall>f \<in> set (active_fingers (touchpad_protocol_of pkt)).
         y_min (tp_info a) \<le> raw2int (abs_y f) \<and> raw2int (abs_y f) \<le> y_max (tp_info a)) \<longrightarrow>
      abs_values ABS_MT_POSITION_Y
         (fst (report_tp_state assign (a\<lparr>rx_buffer := pkt\<rparr>) (touchpad_protocol_of pkt))) =
       map (section44_y (tp_info a)) (active_fingers (touchpad_protocol_of pkt))) \<and>
     take (length (active_fingers (touchpad_protocol_of pkt)))
         (pos (snd (report_tp_state assign (a\<lparr>rx_buffer := pkt\<rparr>) (touchpad_protocol_of pkt)))) =
       map (finger_position (tp_info a)) (active_fingers (touchpad_protocol_of pkt)) \<and>
     tp_info a =
       (if strstr (product_name d) ''MacBookPro13,1'' \<or> strstr (product_name d) ''MacBookPro13,2''
        then applespi_macbookpro131_info
        else if strstr (product_name d) ''MacBookPro13,3'' then applespi_macbookpro133_info
        else applespi_default_info)"
proof -
  let ?a = "a\<lparr>rx_buffer := pkt\<rparr>"
  let ?t = "touchpad_protocol_of pkt"
  let ?r = "report_tp_state assign ?a ?t"
  have len: "length (fingers ?t) \<le> length (pos ?a)"
    using assms(2) by (simp add: touchpad_protocol_of_def)
  have rcv: "receive p assign a pkt = Inr ?r"
    using assms(1) by (simp add: receive_def got_data_touchpad keyboard_protocol_of_def)
  note tr = report_tp_state_trace [OF len, of assign]
  have "abs_values ABS_MT_POSITION_X (fst ?r) =
      map (\<lambda>i. sint (mt_x (finger_position (tp_info a) (active_fingers ?t ! i))))
        [0..<length (active_fingers ?t)]"
    unfolding tr by (simp add: abs_values_append abs_values_fingers_x)
  also have "\<dots> = map (\<lambda>f. sint (mt_x (finger_position (tp_info a) f))) (active_fingers ?t)"
    by (rule map_nth_upt)
  also have "\<dots> = map (\<lambda>f. raw2int (abs_x f)) (active_fingers ?t)"
    by (simp add: finger_position_def raw2int_def)
  finally have x: "abs_values ABS_MT_POSITION_X (fst ?r) =
      map (\<lambda>f. raw2int (abs_x f)) (active_fingers ?t)" .
  have "abs_values ABS_MT_POSITION_Y (fst ?r) =
      map (\<lambda>i. sint (mt_y (finger_position (tp_info a) (active_fingers ?t ! i))))
        [0..<length (active_fingers ?t)]"
    unfolding tr by (simp add: abs_values_append abs_values_fingers_y)
  also have "\<dots> = map (\<lambda>f. sint (mt_y (finger_position (tp_info a) f))) (active_fingers ?t)"
    by (rule map_nth_upt)
  also have "\<dots> =
      map (\<lambda>f. sint (word_of_int (section44_y (tp_info a) f) :: s16)) (active_fingers ?t)"
    by (simp add: finger_position_def section44_y_def)
  finally have y: "abs_values ABS_MT_POSITION_Y (fst ?r) =
      map (\<lambda>f. sint (word_of_int (section44_y (tp_info a) f) :: s16)) (active_fingers ?t)" .
  have fits: "abs_values ABS_MT_POSITION_Y (fst ?r) = map (section44_y (tp_info a)) (active_fingers ?t)"
    if "\<forall>f \<in> set (active_fingers ?t).
          - 32768 \<le> section44_y (tp_info a) f \<and> section44_y (tp_info a) f \<le> 32767"
    unfolding y using that by (intro map_cong) (simp_all add: s16_store_fits)
  obtain n ps where c: "collect_positions (tp_info ?a) (fingers ?t) 0 (pos ?a) = (n, ps)"
    by force
  have ps: "pos (snd ?r) = ps"
    using c by (simp add: report_tp_state_def Let_def)
  from collect_positions_active(2) [OF len] c ps
  have tk: "take (length (active_fingers ?t)) (pos (snd ?r)) =
      map (finger_position (tp_info a)) (active_fingers ?t)"
    by simp
  have cal: "tp_info a =
       (if strstr (product_name d) ''MacBookPro13,1'' \<or> strstr (product_name d) ''MacBookPro13,2''
        then applespi_macbookpro131_info
        else if strstr (product_name d) ''MacBookPro13,3'' then applespi_macbookpro133_info
        else applespi_default_info)"
    using assms(3) unfolding probe_tp_info_cases by (auto split: if_splits)
  then have three: "tp_info a \<in>
      {applespi_macbookpro131_info, applespi_macbookpro133_info, applespi_default_info}"
    by (auto split: if_splits)
  have calibrated: "abs_values ABS_MT_POSITION_Y (fst ?r) =
      map (section44_y (tp_info a)) (active_fingers ?t)"
    if "\<forall>f \<in> set (active_fingers ?t).
          y_min (tp_info a) \<le> raw2int (abs_y f) \<and> raw2int (abs_y f) \<le> y_max (tp_info a)"
  proof -
    have "sint (word_of_int (section44_y (tp_info a) f) :: s16) = section44_y (tp_info a) f"
      if "f \<in> set (active_fingers ?t)" for f
    proof -
      from that \<open>\<forall>f \<in> set (active_fingers ?t). _\<close>
      have "y_min (tp_info a) \<le> raw2int (abs_y f)" "raw2int (abs_y f) \<le> y_max (tp_info a)"
        by simp_all
      from flipped_y_fits [OF three this] show ?thesis
        by (simp add: finger_position_def section44_y_def)
    qed
    then show ?thesis
      unfolding y by (intro map_cong) simp_all
  qed
  from rcv x y fits calibrated tk cal show ?thesis by blast
qed

lemma second_finger_packet_active:
  "active_fingers (touchpad_protocol_of second_finger_packet) =
    [\<lparr>origin = 0, abs_x = 500, abs_y = 600, rel_x = 0, rel_y = 0, tool_major = 120,
      tool_minor = 90, orientation = 1000, touch_major = 100, touch_minor = 80, pressure = 0,
      multi = 0\<rparr>]"
  by (simp add: active_fingers_def second_finger_packet_fingers raw2int_def)

lemma probed_default:
  "probe_tp_info \<lparr>sys_vendor = ''Apple Inc.'', product_name = ''MacBook9,1''\<rparr> =
     Some applespi_default_info"
  by (simp add: probe_tp_info_cases)

text \<open>The example packet with the finger at (500, 600), on a machine without a specific
  entry.\<close>

theorem finger_positions_witness:
  "le16_at second_finger_packet 0 = PACKET_TOUCHPAD \<and>
   length (pos (applespi_probed applespi_default_info [] [])) = MAX_FINGERS \<and>
   probe_tp_info \<lparr>sys_vendor = ''Apple Inc.'', product_name = ''MacBook9,1''\<rparr> =
     Some (tp_info (applespi_probed applespi_default_info [] [])) \<and>
   abs_values ABS_MT_POSITION_X
     (fst (report_tp_state slot_by_index
        ((applespi_probed applespi_default_info [] [])\<lparr>rx_buffer := second_finger_packet\<rparr>)
        (touchpad_protocol_of second_finger_packet))) = [500] \<and>
   abs_values ABS_MT_POSITION_Y
     (fst (report_tp_state slot_by_index
        ((applespi_probed applespi_default_info [] [])\<lparr>rx_buffer := second_finger_packet\<rparr>)
        (touchpad_protocol_of second_finger_packet))) = [6000]"
proof -
  let ?P = "applespi_probed applespi_default_info [] []"
  have h1: "le16_at second_finger_packet 0 = PACKET_TOUCHPAD"
    by (rule second_finger_packet_tag)
  have h2: "length (pos ?P) = MAX_FINGERS"
    by (simp add: applespi_probed_def)
  have h3: "probe_tp_info \<lparr>sys_vendor = ''Apple Inc.'', product_name = ''MacBook9,1''\<rparr> =
     Some (tp_info ?P)"
    by (simp add: probed_default applespi_probed_def)
  have i: "tp_info ?P = applespi_default_info"
    by (simp add: applespi_probed_def)
  from finger_positions [OF h1 h2 h3, of "\<lparr>fnmode = 1, iso_layout = 0\<rparr>" slot_by_index]
  show ?thesis
    using h1 h2 h3
    by (simp add: second_finger_packet_active i applespi_default_info_def raw2int_def
        section44_y_def)
qed

lemma far_finger_packet_tag: "le16_at far_finger_packet 0 = PACKET_TOUCHPAD"
  by (simp add: far_finger_packet_def le16_at_def PACKET_TOUCHPAD_def word_cat_eq)

lemma far_finger_packet_fingers:
  "fingers (touchpad_protocol_of far_finger_packet) =
    [\<lparr>origin = 0, abs_x = 500, abs_y = 0x99C8, rel_x = 0, rel_y = 0, tool_major = 120,
      tool_minor = 90, orientation = 1000, touch_major = 100, touch_minor = 80, pressure = 0,
      multi = 0\<rparr>,
     \<lparr>origin = 0, abs_x = 0, abs_y = 0, rel_x = 0, rel_y = 0, tool_major = 0, tool_minor = 0,
      orientation = 0, touch_major = 0, touch_minor = 0, pressure = 0, multi = 0\<rparr>,
     \<lparr>origin = 0, abs_x = 0, abs_y = 0, rel_x = 0, rel_y = 0, tool_major = 0, tool_minor = 0,
      orientation = 0, touch_major = 0, touch_minor = 0, pressure = 0, multi = 0\<rparr>,
     \<lparr>origin = 0, abs_x = 0, abs_y = 0, rel_x = 0, rel_y = 0, tool_major = 0, tool_minor = 0,
      orientation = 0, touch_major = 0, touch_minor = 0, pressure = 0, multi = 0\<rparr>,
     \<lparr>origin = 0, abs_x = 0, abs_y = 0, rel_x = 0, rel_y = 0, tool_major = 0, tool_minor = 0,
      orientation = 0, touch_major = 0, touch_minor = 0, pressure = 0, multi = 0\<rparr>,
     \<lparr>origin = 0, abs_x = 0, abs_y = 0, rel_x = 0, rel_y = 0, tool_major = 0, tool_minor = 0,
      orientation = 0, touch_major = 0, touch_minor = 0, pressure = 0, multi = 0\<rparr>]"
  by (simp add: touchpad_protocol_of_def MAX_FINGERS_def upt_6 tp_finger_of_def le16_at_def
      far_finger_packet_def nth_append word_cat_eq)

text \<open>Claim C8 as stated fails for a sample far below the calibrated range. The finger of this
  packet has raw Y -26168; with the generic calibration \<open>y_min + y_max - raw_abs_y\<close> is 32768,
  one more than a signed 16-bit field holds, and the Y position reported is -32768.\<close>

theorem finger_positions_counterexample:
  "le16_at far_finger_packet 0 = PACKET_TOUCHPAD \<and>
   map (raw2int \<circ> abs_y) (active_fingers (touchpad_protocol_of far_finger_packet)) =
     [- 26168] \<and>
   map (section44_y applespi_default_info)
     (active_fingers (touchpad_protocol_of far_finger_packet)) = [32768] \<and>
   map_sum id (abs_values ABS_MT_POSITION_Y \<circ> fst)
     (receive \<lparr>fnmode = 1, iso_layout = 0\<rparr> slot_by_index
        (applespi_probed applespi_default_info [] []) far_finger_packet) = Inr [- 32768]"
proof -
  let ?a = "(applespi_probed applespi_default_info [] [])\<lparr>rx_buffer := far_finger_packet\<rparr>"
  let ?t = "touchpad_protocol_of far_finger_packet"
  have rcv: "receive \<lparr>fnmode = 1, iso_layout = 0\<rparr> slot_by_index
        (applespi_probed applespi_default_info [] []) far_finger_packet =
      Inr (report_tp_state slot_by_index ?a ?t)"
    by (simp add: receive_def got_data_touchpad keyboard_protocol_of_def far_finger_packet_tag)
  have act: "active_fingers ?t =
    [\<lparr>origin = 0, abs_x = 500, abs_y = 0x99C8, rel_x = 0, rel_y = 0, tool_major = 120,
      tool_minor = 90, orientation = 1000, touch_major = 100, touch_minor = 80, pressure = 0,
      multi = 0\<rparr>]"
    by (simp add: active_fingers_def far_finger_packet_fingers raw2int_def)
  have raw: "raw2int (0x99C8 :: u16) = - 26168"
    by (simp add: raw2int_def)
  have y: "abs_values ABS_MT_POSITION_Y (fst (report_tp_state slot_by_index ?a ?t)) = [- 32768]"
    by (simp add: report_tp_state_def applespi_probed_def MAX_FINGERS_def Let_def upt_6
        report_finger_data_def far_finger_packet_fingers raw2int_def
        applespi_default_info_def replicate_6)
  have claimed: "map (section44_y applespi_default_info) (active_fingers ?t) = [32768]"
    by (simp add: act raw section44_y_def applespi_default_info_def)
  have raws: "map (raw2int \<circ> abs_y) (active_fingers ?t) = [- 26168]"
    by (simp add: act raw)
  show ?thesis
    by (simp add: rcv y claimed raws far_finger_packet_tag)
qed

text \<open>Claim C7 fails on the code. In the example packet the sample at index 0 is inactive and
  the sample at index 1 is the only finger. The one finger update carries the position of that
  finger and the shape of the sample at index 0: touch and tool axes 0, orientation 16384. The
  shape of the finger itself would be 200, 160, 240, 180 and 15384.\<close>

theorem shape_of_raw_index:
  "active_fingers (touchpad_protocol_of second_finger_packet) =
     [\<lparr>origin = 0, abs_x = 500, abs_y = 600, rel_x = 0, rel_y = 0, tool_major = 120,
       tool_minor = 90, orientation = 1000, touch_major = 100, touch_minor = 80, pressure = 0,
       multi = 0\<rparr>] \<and>
   map_sum id fst
     (receive p assign (applespi_probed applespi_default_info tx rx) second_finger_packet) =
     Inr [Mt_slot (assign [\<lparr>mt_x = 500, mt_y = 6000\<rparr>] 0),
          Mt_report_slot_state True,
          Report_abs ABS_MT_TOUCH_MAJOR 0,
          Report_abs ABS_MT_TOUCH_MINOR 0,
          Report_abs ABS_MT_WIDTH_MAJOR 0,
          Report_abs ABS_MT_WIDTH_MINOR 0,
          Report_abs ABS_MT_ORIENTATION 16384,
          Report_abs ABS_MT_POSITION_X 500,
          Report_abs ABS_MT_POSITION_Y 6000,
          Mt_sync_frame,
          Report_key Touchpad BTN_LEFT 0,
          Sync Touchpad] \<and>
   report_finger_data (assign [\<lparr>mt_x = 500, mt_y = 6000\<rparr>] 0) \<lparr>mt_x = 500, mt_y = 6000\<rparr>
       (active_fingers (touchpad_protocol_of second_finger_packet) ! 0) =
     [Mt_slot (assign [\<lparr>mt_x = 500, mt_y = 6000\<rparr>] 0),
      Mt_report_slot_state True,
      Report_abs ABS_MT_TOUCH_MAJOR 200,
      Report_abs ABS_MT_TOUCH_MINOR 160,
      Report_abs ABS_MT_WIDTH_MAJOR 240,
      Report_abs ABS_MT_WIDTH_MINOR 180,
      Report_abs ABS_MT_ORIENTATION 15384,
      Report_abs ABS_MT_POSITION_X 500,
      Report_abs ABS_MT_POSITION_Y 6000]"
proof -
  let ?a = "(applespi_probed applespi_default_info tx rx)\<lparr>rx_buffer := second_finger_packet\<rparr>"
  let ?t = "touchpad_protocol_of second_finger_packet"
  have rcv: "receive p assign (applespi_probed applespi_default_info tx rx) second_finger_packet =
      Inr (report_tp_state assign ?a ?t)"
    by (simp add: receive_def got_data_touchpad keyboard_protocol_of_def second_finger_packet_tag)
  have clk: "clicked ?t = 0"
    by (simp add: touchpad_protocol_of_def second_finger_packet_def nth_append)
  have evs: "fst (report_tp_state assign ?a ?t) =
     [Mt_slot (assign [\<lparr>mt_x = 500, mt_y = 6000\<rparr>] 0),
          Mt_report_slot_state True,
          Report_abs ABS_MT_TOUCH_MAJOR 0,
          Report_abs ABS_MT_TOUCH_MINOR 0,
          Report_abs ABS_MT_WIDTH_MAJOR 0,
          Report_abs ABS_MT_WIDTH_MINOR 0,
          Report_abs ABS_MT_ORIENTATION 16384,
          Report_abs ABS_MT_POSITION_X 500,
          Report_abs ABS_MT_POSITION_Y 6000,
          Mt_sync_frame,
          Report_key Touchpad BTN_LEFT 0,
          Sync Touchpad]"
    by (simp add: report_tp_state_def applespi_probed_def MAX_FINGERS_def Let_def clk upt_6
        report_finger_data_def second_finger_packet_fingers raw2int_def
        MAX_FINGER_ORIENTATION_def applespi_default_info_def replicate_6)
  show ?thesis
    by (simp add: rcv evs second_finger_packet_active report_finger_data_def raw2int_def
        MAX_FINGER_ORIENTATION_def)
qed

section \<open>The LED command buffer\<close>

lemma word_cat_bytes: "word_cat (ucast (drop_bit 8 w) :: u8) (ucast (w AND 0xff) :: u8) = (w :: u16)"
proof -
  have m: "(0xff :: u16) = mask 8"
    by (simp add: mask_eq_exp_minus_1)
  show ?thesis
    unfolding m
    by (rule bit_word_eqI)
       (auto simp: bit_word_cat_iff bit_ucast_iff bit_drop_bit_eq bit_and_iff bit_mask_iff)
qed

lemma length_led_cmd: "length applespi_caps_lock_led_cmd = 256"
  by (simp add: applespi_caps_lock_led_cmd_def)

lemma length_led_command: "length (led_command s on) = 256"
  by (simp add: led_command_def Let_def length_led_cmd)

lemma led_command_region:
  "take 10 (drop 8 (led_command s on)) =
   take 10 (drop 8 (applespi_caps_lock_led_cmd[11 := ucast (s AND 0xff), 17 := (if on then 2 else 0)]))"
  by (simp add: led_command_def Let_def drop_update_swap)

text \<open>Claim C5. For every counter value \<open>s\<close> and every \<open>on\<close>, the command buffer has 256 bytes,
  byte 11 is the low byte of \<open>s\<close>, byte 17 is 2 for on and 0 for off, bytes 18 and 19 are, low
  byte first, the CRC-16 with seed 0 of bytes 8 to 17 of that same buffer, and every other byte
  is the template's. It is the buffer \<^verbatim>\<open>applespi_send_leds_cmd\<close> hands to \<^verbatim>\<open>spi_async\<close> when it
  sends, with the counter it found, which it then increments.\<close>

theorem led_command_crc:
  "length (led_command s on) = APPLESPI_PACKET_SIZE \<and>
   led_command s on ! 11 = ucast s \<and>
   led_command s on ! 17 = (if on then 2 else 0) \<and>
   word_cat (led_command s on ! 19) (led_command s on ! 18) =
     crc16 0 (take 10 (drop 8 (led_command s on))) \<and>
   (\<forall>i < APPLESPI_PACKET_SIZE. i \<notin> {11, 17, 18, 19} \<longrightarrow>
      led_command s on ! i = applespi_caps_lock_led_cmd ! i) \<and>
   (want_cl_led_on a \<noteq> have_cl_led_on a \<and> \<not> led_msg_queued a \<longrightarrow>
      fst (snd (applespi_send_leds_cmd sts a)) =
        Some (led_command (led_msg_cntr a) (want_cl_led_on a)) \<and>
      led_msg_cntr (snd (snd (applespi_send_leds_cmd sts a))) = led_msg_cntr a + 1)"
proof -
  have low: "(ucast (s AND 0xff) :: u8) = ucast s"
  proof -
    have m: "(0xff :: u32) = mask 8" by (simp add: mask_eq_exp_minus_1)
    show ?thesis unfolding m
      by (rule bit_word_eqI) (auto simp: bit_ucast_iff bit_and_iff bit_mask_iff)
  qed
  have b11: "led_command s on ! 11 = ucast s"
    by (simp add: led_command_def Let_def length_led_cmd low)
  have b17: "led_command s on ! 17 = (if on then 2 else 0)"
    by (simp add: led_command_def Let_def length_led_cmd)
  let ?crc = "crc16 0 (take 10 (drop 8 (led_command s on)))"
  have b18: "led_command s on ! 18 = ucast (?crc AND 0xff)"
    unfolding led_command_region by (simp add: led_command_def Let_def length_led_cmd)
  have b19: "led_command s on ! 19 = ucast (drop_bit 8 ?crc)"
    unfolding led_command_region by (simp add: led_command_def Let_def length_led_cmd)
  have rest: "\<forall>i < APPLESPI_PACKET_SIZE. i \<notin> {11, 17, 18, 19} \<longrightarrow>
      led_command s on ! i = applespi_caps_lock_led_cmd ! i"
    by (simp add: led_command_def Let_def)
  have send: "want_cl_led_on a \<noteq> have_cl_led_on a \<and> \<not> led_msg_queued a \<longrightarrow>
      fst (snd (applespi_send_leds_cmd sts a)) =
        Some (led_command (led_msg_cntr a) (want_cl_led_on a)) \<and>
      led_msg_cntr (snd (snd (applespi_send_leds_cmd sts a))) = led_msg_cntr a + 1"
    by (simp add: applespi_send_leds_cmd_def Let_def)
  show ?thesis
    using b11 b17 rest send
    by (simp add: length_led_command APPLESPI_PACKET_SIZE_def b18 b19 word_cat_bytes)
qed

text \<open>The CRC on the usual check string, and on bytes 8 to 17 of the mode-switch command
  of \<^verbatim>\<open>applespi_init_commands\<close>, whose bytes 18 and 19 are 0x7B, 0x11.\<close>

lemma crc16_byte_unfold:
  "crc16_byte crc d =
   crc16_bit (crc16_bit (crc16_bit (crc16_bit (crc16_bit (crc16_bit (crc16_bit (crc16_bit
     (crc XOR ucast d))))))))"
  by (simp add: crc16_byte_def eval_nat_numeral)

lemma crc16_check: "crc16 0 [0x31, 0x32, 0x33, 0x34, 0x35, 0x36, 0x37, 0x38, 0x39] = 0xBB3D"
  by (simp add: crc16_byte_unfold crc16_bit_def)

lemma init_command_crc:
  "crc16 0 [0x52, 0x02, 0x00, 0x00, 0x02, 0x00, 0x02, 0x00, 0x02, 0x01] = word_cat (0x11 :: u8) (0x7B :: u8)"
  by (simp add: crc16_byte_unfold crc16_bit_def word_cat_eq)

lemma led_region_value:
  "take 10 (drop 8 (led_command s on)) =
     [0x51, 0x01, 0x00, ucast (s AND 0xff), 0x02, 0x00, 0x02, 0x00, 0x01, if on then 2 else 0]"
  unfolding led_command_region
  by (simp add: applespi_caps_lock_led_cmd_def)

text \<open>The command for counter 0x1234 and on.\<close>

theorem led_command_crc_witness:
  "led_command 0x1234 True ! 11 = 0x34 \<and>
   led_command 0x1234 True ! 17 = 2 \<and>
   take 10 (drop 8 (led_command 0x1234 True)) =
     [0x51, 0x01, 0x00, 0x34, 0x02, 0x00, 0x02, 0x00, 0x01, 0x02] \<and>
   word_cat (led_command 0x1234 True ! 19) (led_command 0x1234 True ! 18) = (0xDCAA :: u16) \<and>
   (6 :: nat) < APPLESPI_PACKET_SIZE \<and> (6 :: nat) \<notin> {11, 17, 18, 19} \<and>
   led_command 0x1234 True ! 6 = applespi_caps_lock_led_cmd ! 6"
proof -
  have r: "take 10 (drop 8 (led_command 0x1234 True)) =
     [0x51, 0x01, 0x00, 0x34, 0x02, 0x00, 0x02, 0x00, 0x01, 0x02]"
    by (simp add: led_region_value)
  have c: "crc16 0 [0x51, 0x01, 0x00, 0x34, 0x02, 0x00, 0x02, 0x00, 0x01, 0x02] = 0xDCAA"
    by (simp add: crc16_byte_unfold crc16_bit_def)
  from led_command_crc [of "0x1234" True "applespi_probed applespi_default_info [] []" 0] c
  show ?thesis
    by (simp add: r APPLESPI_PACKET_SIZE_def)
qed

section \<open>The LED queue\<close>

text \<open>The number of accepted messages not yet completed is 1 while \<^verbatim>\<open>led_msg_queued\<close> is set
  and 0 otherwise.\<close>

lemma led_reach_invariant:
  "led_reach a k \<Longrightarrow> k = (if led_msg_queued a then 1 else 0)"
proof (induction rule: led_reach.induct)
  case (probed info tx rx)
  show ?case by (simp add: applespi_probed_def)
next
  case (request a k sts on r msg a')
  then show ?case
    by (auto simp: applespi_set_leds_def applespi_send_leds_cmd_def Let_def split: if_splits)
next
  case (completion a k sts r msg a')
  then show ?case
    by (auto simp: applespi_async_write_complete_def applespi_send_leds_cmd_def Let_def
        split: if_splits)
next
  case (packet a k p assign pkt evs a')
  from packet.hyps(2) have "led_msg_queued a' = led_msg_queued (a\<lparr>rx_buffer := pkt\<rparr>)"
    unfolding receive_def by (rule got_data_queued)
  with packet.IH show ?case by simp
qed

text \<open>Claim C6, as amended. In every reachable state at most one LED message is in flight, and
  one is in flight exactly while \<^verbatim>\<open>led_msg_queued\<close> is set. A request for the value last sent,
  or one that arrives while a message is in flight, hands nothing to \<^verbatim>\<open>spi_async\<close> and only
  sets the desired value. The completion handler clears the flag and sends exactly when the
  desired value differs from the one last sent. Two requests for on that arrive while a
  message is in flight send nothing themselves; after the completion there is one further send
  when the message in flight carried off, and none when it carried on; a request for on
  after that sends nothing.\<close>

theorem led_queue_single_flight:
  assumes "led_reach a k"
  shows "k \<le> 1 \<and> (led_msg_queued a \<longleftrightarrow> k = 1) \<and>
    (on = have_cl_led_on a \<or> led_msg_queued a \<longrightarrow>
       applespi_set_leds sts a on = (0, None, a\<lparr>want_cl_led_on := on\<rparr>)) \<and>
    fst (snd (applespi_async_write_complete sts a)) =
      (if want_cl_led_on a = have_cl_led_on a then None
       else Some (led_command (led_msg_cntr a) (want_cl_led_on a))) \<and>
    (led_msg_queued (snd (snd (applespi_async_write_complete sts a))) \<longleftrightarrow>
       want_cl_led_on a \<noteq> have_cl_led_on a \<and> sts = 0) \<and>
    (led_msg_queued a \<longrightarrow>
       (let a1 = snd (snd (applespi_set_leds s1 a True));
            a2 = snd (snd (applespi_set_leds s2 a1 True))
        in fst (snd (applespi_set_leds s1 a True)) = None \<and>
           fst (snd (applespi_set_leds s2 a1 True)) = None \<and>
           fst (snd (applespi_async_write_complete s3 a2)) =
             (if have_cl_led_on a then None else Some (led_command (led_msg_cntr a) True)) \<and>
           fst (snd (applespi_set_leds s4 (snd (snd (applespi_async_write_complete 0 a2))) True))
             = None))"
  using led_reach_invariant [OF assms]
  by (auto simp: applespi_set_leds_def applespi_async_write_complete_def
      applespi_send_leds_cmd_def Let_def split: if_splits)



text \<open>A state reached by: request on, completion, request off. The message in flight carries
  off, and the completion after a request for on sends the command for on.\<close>

theorem led_queue_single_flight_witness:
  "led_reach
     ((applespi_probed applespi_default_info [] [])
        \<lparr>tx_buffer := led_command 1 False, led_msg_cntr := 2, led_msg_queued := True\<rparr>) 1 \<and>
   fst (snd (applespi_set_leds 0
     ((applespi_probed applespi_default_info [] [])
        \<lparr>tx_buffer := led_command 1 False, led_msg_cntr := 2, led_msg_queued := True\<rparr>) True)) = None \<and>
   fst (snd (applespi_async_write_complete 0
     ((applespi_probed applespi_default_info [] [])
        \<lparr>tx_buffer := led_command 1 False, want_cl_led_on := True, led_msg_cntr := 2,
          led_msg_queued := True\<rparr>))) = Some (led_command 2 True)"
proof -
  let ?P = "applespi_probed applespi_default_info [] []"
  let ?S1 = "?P\<lparr>tx_buffer := led_command 0 True, want_cl_led_on := True, have_cl_led_on := True,
                 led_msg_cntr := 1, led_msg_queued := True\<rparr>"
  let ?S2 = "?S1\<lparr>led_msg_queued := False\<rparr>"
  let ?S3 = "?P\<lparr>tx_buffer := led_command 1 False, led_msg_cntr := 2, led_msg_queued := True\<rparr>"
  have r0: "led_reach ?P 0" by (rule led_reach.probed)
  have e1: "applespi_set_leds 0 ?P True = (0, Some (led_command 0 True), ?S1)"
    by (simp add: applespi_set_leds_def applespi_send_leds_cmd_def applespi_probed_def Let_def)
  have r1: "led_reach ?S1 1"
    using led_reach.request [OF r0 e1] by simp
  have e2: "applespi_async_write_complete 0 ?S1 = (0, None, ?S2)"
    by (simp add: applespi_async_write_complete_def applespi_send_leds_cmd_def
        applespi_probed_def Let_def)
  have r2: "led_reach ?S2 0"
    using led_reach.completion [of ?S1 0, OF _ e2] r1 by simp
  have e3: "applespi_set_leds 0 ?S2 False = (0, Some (led_command 1 False), ?S3)"
    by (simp add: applespi_set_leds_def applespi_send_leds_cmd_def applespi_probed_def Let_def)
  have r3: "led_reach ?S3 1"
    using led_reach.request [OF r2 e3] by simp
  have q: "led_msg_queued ?S3" by simp
  have s: "snd (snd (applespi_set_leds 0 ?S3 True)) = ?S3\<lparr>want_cl_led_on := True\<rparr>"
    by (simp add: applespi_set_leds_def applespi_send_leds_cmd_def)
  from led_queue_single_flight [OF r3, of True 0 0 0 0 0] q s r3
  show ?thesis
    by (simp add: applespi_set_leds_def applespi_send_leds_cmd_def
        applespi_async_write_complete_def applespi_probed_def Let_def)
qed

text \<open>Claim C6 as stated fails when the message in flight carries on: after the first request
  for on from the probed state, a further request for on changes nothing, and the completion
  sends nothing.\<close>

theorem led_two_requests_counterexample:
  "applespi_set_leds 0 (applespi_probed applespi_default_info [] []) True =
     (0, Some (led_command 0 True),
      (applespi_probed applespi_default_info [] [])
        \<lparr>tx_buffer := led_command 0 True, want_cl_led_on := True, have_cl_led_on := True,
          led_msg_cntr := 1, led_msg_queued := True\<rparr>) \<and>
   applespi_set_leds 0
     ((applespi_probed applespi_default_info [] [])
        \<lparr>tx_buffer := led_command 0 True, want_cl_led_on := True, have_cl_led_on := True,
          led_msg_cntr := 1, led_msg_queued := True\<rparr>) True =
     (0, None,
      (applespi_probed applespi_default_info [] [])
        \<lparr>tx_buffer := led_command 0 True, want_cl_led_on := True, have_cl_led_on := True,
          led_msg_cntr := 1, led_msg_queued := True\<rparr>) \<and>
   applespi_async_write_complete 0
     ((applespi_probed applespi_default_info [] [])
        \<lparr>tx_buffer := led_command 0 True, want_cl_led_on := True, have_cl_led_on := True,
          led_msg_cntr := 1, led_msg_queued := True\<rparr>) =
     (0, None,
      (applespi_probed applespi_default_info [] [])
        \<lparr>tx_buffer := led_command 0 True, want_cl_led_on := True, have_cl_led_on := True,
          led_msg_cntr := 1, led_msg_queued := False\<rparr>)"
  by (simp add: applespi_set_leds_def applespi_async_write_complete_def
      applespi_send_leds_cmd_def applespi_probed_def Let_def)

text \<open>Claim C10. When \<^verbatim>\<open>applespi_send_leds_cmd\<close> has to send and \<^verbatim>\<open>spi_async\<close> fails, it returns the
  failure with \<^verbatim>\<open>have_cl_led_on\<close> already set to the desired value and \<^verbatim>\<open>led_msg_queued\<close> still
  clear. Nothing is rolled back: a further request for the same value, and a further call of
  the function, send nothing, whatever \<^verbatim>\<open>spi_async\<close> would return.\<close>

theorem led_failed_send_not_reissued:
  assumes "want_cl_led_on a \<noteq> have_cl_led_on a" and "\<not> led_msg_queued a" and "sts \<noteq> 0"
  shows "applespi_send_leds_cmd sts a =
           (sts, Some (led_command (led_msg_cntr a) (want_cl_led_on a)),
            a\<lparr>have_cl_led_on := want_cl_led_on a,
              tx_buffer := led_command (led_msg_cntr a) (want_cl_led_on a),
              led_msg_cntr := led_msg_cntr a + 1\<rparr>) \<and>
         \<not> led_msg_queued (snd (snd (applespi_send_leds_cmd sts a))) \<and>
         have_cl_led_on (snd (snd (applespi_send_leds_cmd sts a))) = want_cl_led_on a \<and>
         applespi_set_leds sts' (snd (snd (applespi_send_leds_cmd sts a))) (want_cl_led_on a) =
           (0, None, snd (snd (applespi_send_leds_cmd sts a))) \<and>
         applespi_send_leds_cmd sts' (snd (snd (applespi_send_leds_cmd sts a))) =
           (0, None, snd (snd (applespi_send_leds_cmd sts a)))"
  using assms
  by (simp add: applespi_set_leds_def applespi_send_leds_cmd_def Let_def)

text \<open>From the probed state, a request for on with \<^verbatim>\<open>spi_async\<close> returning -5, and the same
  request again with \<^verbatim>\<open>spi_async\<close> ready to accept.\<close>

theorem led_failed_send_not_reissued_witness:
  "applespi_set_leds (-5) (applespi_probed applespi_default_info [] []) True =
     (-5, Some (led_command 0 True),
      (applespi_probed applespi_default_info [] [])
        \<lparr>want_cl_led_on := True, have_cl_led_on := True, tx_buffer := led_command 0 True,
          led_msg_cntr := 1\<rparr>) \<and>
   applespi_set_leds 0
     ((applespi_probed applespi_default_info [] [])
        \<lparr>want_cl_led_on := True, have_cl_led_on := True, tx_buffer := led_command 0 True,
          led_msg_cntr := 1\<rparr>) True =
     (0, None,
      (applespi_probed applespi_default_info [] [])
        \<lparr>want_cl_led_on := True, have_cl_led_on := True, tx_buffer := led_command 0 True,
          led_msg_cntr := 1\<rparr>)"
proof -
  let ?a = "(applespi_probed applespi_default_info [] [])\<lparr>want_cl_led_on := True\<rparr>"
  have h1: "want_cl_led_on ?a \<noteq> have_cl_led_on ?a" and h2: "\<not> led_msg_queued ?a"
    by (simp_all add: applespi_probed_def)
  have h3: "(-5 :: int) \<noteq> 0" by simp
  from led_failed_send_not_reissued [OF h1 h2 h3, of 0]
  show ?thesis
    by (simp add: applespi_set_leds_def applespi_send_leds_cmd_def applespi_probed_def Let_def)
qed

end
